theory Spec2Isabelle
  imports Complex_Main
begin

section \<open>Progress measures and the Armijo test\<close>

text \<open>
  \<^verbatim>\<open>ProgressMeasures\<close> is the triple the relaxation layer hands to a globalization
  strategy. The initializer in \<^verbatim>\<open>compute_predicted_reductions\<close> fixes the field order:
  infeasibility, objective (a function of the objective multiplier), auxiliary.
  \<^verbatim>\<open>set_objective_measure\<close> stores \<^verbatim>\<open>[=](double sigma) { return sigma * objective; }\<close>.
\<close>

record ProgressMeasures =
  infeasibility :: real
  objective :: "real \<Rightarrow> real"
  auxiliary :: real

text \<open>
  The closure stored by \<^verbatim>\<open>set_objective_measure\<close>, and the one returned by
  \<^verbatim>\<open>compute_predicted_objective_reduction\<close>
  (\<^verbatim>\<open>step_length * (-sigma*directional_derivative) - step_length*step_length/2. * quadratic_term\<close>).
\<close>

definition scaled_objective :: "real \<Rightarrow> real \<Rightarrow> real" where
  "scaled_objective objective_value objective_multiplier = objective_multiplier * objective_value"

definition predicted_objective_reduction :: "real \<Rightarrow> real \<Rightarrow> real \<Rightarrow> real \<Rightarrow> real" where
  "predicted_objective_reduction step_length directional_derivative quadratic_term objective_multiplier =
     step_length * (- objective_multiplier * directional_derivative)
     - step_length * step_length / 2 * quadratic_term"

text \<open>\<^verbatim>\<open>std::numeric_limits<double>::epsilon()\<close>, that is \<open>2\<^sup>-\<^sup>5\<^sup>2\<close>.\<close>

definition machine_epsilon :: real where
  "machine_epsilon = 1 / 2 ^ 52"

text \<open>
  Modelled from the spec: \<^verbatim>\<open>GlobalizationStrategy::armijo_sufficient_decrease\<close> is called by
  both strategies but its body is not among the sources. The specification gives the test as
  "actual reduction \<open>\<ge>\<close> \<open>\<eta>\<close> \<open>\<cdot>\<close> predicted reduction", with \<open>\<eta>\<close> the Armijo constant.
\<close>

definition armijo_sufficient_decrease :: "real \<Rightarrow> real \<Rightarrow> real \<Rightarrow> bool" where
  "armijo_sufficient_decrease armijo_decrease_fraction predicted_reduction actual_reduction =
     (actual_reduction \<ge> armijo_decrease_fraction * predicted_reduction)"

section \<open>The l1 merit function\<close>

record l1MeritFunction =
  smallest_known_infeasibility :: real
  protect_actual_reduction_against_roundoff :: bool
  l1_armijo_decrease_fraction :: real

text \<open>
  \<^verbatim>\<open>l1MeritFunction::compute_merit_actual_reduction\<close>: the round-off allowance is added only
  when the strategy's flag is set.
\<close>

definition compute_merit_actual_reduction :: "l1MeritFunction \<Rightarrow> real \<Rightarrow> real \<Rightarrow> real" where
  "compute_merit_actual_reduction s current_merit_value trial_merit_value =
     (let actual_reduction = current_merit_value - trial_merit_value in
      if protect_actual_reduction_against_roundoff s
      then actual_reduction + 10 * machine_epsilon * \<bar>current_merit_value\<bar>
      else actual_reduction)"

text \<open>
  What one call of \<^verbatim>\<open>l1MeritFunction::is_iterate_acceptable\<close> produces: the verdict, the
  strategy afterwards, whether the "not a descent direction" warning was written, and the
  status string put into the statistics.
\<close>

record l1_outcome =
  l1_accept :: bool
  l1_strategy :: l1MeritFunction
  l1_warning :: bool
  l1_status :: string

definition l1_merit_value :: "ProgressMeasures \<Rightarrow> real \<Rightarrow> real" where
  "l1_merit_value progress objective_multiplier =
     objective progress objective_multiplier + auxiliary progress + infeasibility progress"

definition l1MeritFunction_is_iterate_acceptable ::
  "l1MeritFunction \<Rightarrow> ProgressMeasures \<Rightarrow> ProgressMeasures \<Rightarrow> ProgressMeasures \<Rightarrow> real \<Rightarrow> l1_outcome" where
  "l1MeritFunction_is_iterate_acceptable s current_progress trial_progress predicted_reduction objective_multiplier =
     (let constrained_predicted_reduction =
            objective predicted_reduction objective_multiplier + auxiliary predicted_reduction
            + infeasibility predicted_reduction;
          warn = (constrained_predicted_reduction \<le> 0);
          current_merit_value = l1_merit_value current_progress objective_multiplier;
          trial_merit_value = l1_merit_value trial_progress objective_multiplier;
          actual_reduction = compute_merit_actual_reduction s current_merit_value trial_merit_value;
          accept = armijo_sufficient_decrease (l1_armijo_decrease_fraction s)
                     constrained_predicted_reduction actual_reduction
      in if accept
         then \<lparr> l1_accept = True,
                l1_strategy = s\<lparr> smallest_known_infeasibility :=
                                  min (smallest_known_infeasibility s) (infeasibility trial_progress) \<rparr>,
                l1_warning = warn,
                l1_status = ''accepted (Armijo)'' \<rparr>
         else \<lparr> l1_accept = False, l1_strategy = s, l1_warning = warn,
                l1_status = ''rejected (Armijo)'' \<rparr>)"

text \<open>
  The acceptance rule in the words of the specification, for comparison: the merit is
  \<open>\<phi> = \<sigma>\<cdot>f + auxiliary + \<rho>\<cdot>h\<close> and the round-off allowance is always present.
\<close>

definition spec_l1_merit :: "real \<Rightarrow> ProgressMeasures \<Rightarrow> real \<Rightarrow> real" where
  "spec_l1_merit rho progress sigma = objective progress sigma + auxiliary progress + rho * infeasibility progress"

definition spec_l1_accept ::
  "real \<Rightarrow> real \<Rightarrow> ProgressMeasures \<Rightarrow> ProgressMeasures \<Rightarrow> ProgressMeasures \<Rightarrow> real \<Rightarrow> bool" where
  "spec_l1_accept eta rho current_progress trial_progress predicted_reduction sigma =
     ((spec_l1_merit rho current_progress sigma - spec_l1_merit rho trial_progress sigma)
        + 10 * machine_epsilon * \<bar>spec_l1_merit rho current_progress sigma\<bar>
      \<ge> eta * (objective predicted_reduction sigma + auxiliary predicted_reduction
                + infeasibility predicted_reduction))"

section \<open>Multipliers and the active-set dual displacements\<close>

record Multipliers =
  constraints :: "real list"
  lower_bounds :: "real list"
  upper_bounds :: "real list"

text \<open>
  The part of \<^verbatim>\<open>Direction\<close> the QP solver fills in: the primal step and the multipliers of
  the QP at its solution (\<^verbatim>\<open>BQPDSolver::analyze_constraints\<close> copies them from the solver's
  residuals, so they are the new multipliers).
\<close>

record Direction =
  direction_primals :: "real list"
  direction_multipliers :: Multipliers






section \<open>The iterate\<close>

text \<open>
  The cached evaluations of an iterate: objective value, constraint values (dense),
  objective gradient (sparse, index and value) and constraint Jacobian (one sparse row per
  constraint). The suffix \<open>_eval\<close> keeps the first two apart from the multiplier block
  \<open>constraints\<close> and the progress measure \<open>objective\<close>.
\<close>

record Evaluations =
  objective_eval :: real
  constraints_eval :: "real list"
  objective_gradient :: "(nat \<times> real) list"
  constraint_jacobian :: "(nat \<times> real) list list"

record DualResiduals =
  stationarity :: real
  complementarity :: real
  stationarity_scaling :: real
  complementarity_scaling :: real

record Iterate =
  primals :: "real list"
  multipliers :: Multipliers
  feasibility_multipliers :: Multipliers
  evaluations :: Evaluations
  is_objective_computed :: bool
  progress :: ProgressMeasures
  residuals :: DualResiduals
  feasibility_residuals :: DualResiduals
  primal_feasibility :: real
  objective_multiplier :: real

record Model =
  number_variables :: nat
  number_constraints :: nat
  objective_sign :: real
  is_constrained :: bool

section \<open>Least-square multipliers\<close>

text \<open>
  Modelled from the spec: \<^verbatim>\<open>norm_inf(vector, Range(a, b))\<close> lives in the vector utilities,
  which are not among the sources; it is the largest absolute value over the index range
  (zero on an empty range).
\<close>

definition norm_inf_range :: "real list \<Rightarrow> nat \<Rightarrow> nat \<Rightarrow> real" where
  "norm_inf_range v a b = foldl (\<lambda>r i. max r \<bar>v ! i\<bar>) 0 [a..<b]"

text \<open>
  The symmetric matrix \<^verbatim>\<open>[I J\<^sup>T; J 0]\<close> in coordinate form, entries \<open>(value, row, column)\<close> in
  the order \<^verbatim>\<open>Preprocessing::compute_least_square_multipliers\<close> inserts them.
\<close>

definition least_square_matrix :: "Model \<Rightarrow> Iterate \<Rightarrow> (real \<times> nat \<times> nat) list" where
  "least_square_matrix model current_iterate =
     map (\<lambda>variable_index. (1, variable_index, variable_index)) [0..<number_variables model]
     @ concat (map (\<lambda>constraint_index.
          map (\<lambda>(variable_index, derivative).
                 (derivative, variable_index, number_variables model + constraint_index))
              (constraint_jacobian (evaluations current_iterate) ! constraint_index))
          [0..<number_constraints model])"

text \<open>
  The right-hand side: zeroed, then \<^verbatim>\<open>rhs[i] += objective_sign * derivative\<close> over the sparse
  objective gradient, then \<^verbatim>\<open>rhs[i] -= zL[i] + zU[i]\<close> for every variable.
\<close>

definition least_square_rhs :: "Model \<Rightarrow> Iterate \<Rightarrow> real list \<Rightarrow> real list" where
  "least_square_rhs model current_iterate rhs =
     (let zeroed = replicate (length rhs) 0;
          with_gradient = foldl (\<lambda>r (variable_index, derivative).
                r[variable_index := r ! variable_index + objective_sign model * derivative])
              zeroed (objective_gradient (evaluations current_iterate))
      in foldl (\<lambda>r variable_index.
                r[variable_index := r ! variable_index
                   - (lower_bounds (multipliers current_iterate) ! variable_index
                      + upper_bounds (multipliers current_iterate) ! variable_index)])
              with_gradient [0..<number_variables model])"

definition store_at :: "nat \<Rightarrow> real list \<Rightarrow> real list \<Rightarrow> nat \<Rightarrow> real list" where
  "store_at offset solution v constraint_index = v[constraint_index := solution ! (offset + constraint_index)]"

text \<open>
  \<^verbatim>\<open>Preprocessing::compute_least_square_multipliers\<close>. The symmetric indefinite solver is an
  external capability: \<open>linear_solver\<close> maps the assembled matrix and right-hand side to the
  solution vector of length \<open>number_variables + number_constraints\<close>. The result is the vector
  \<^verbatim>\<open>multipliers\<close> as the call leaves it: overwritten on its first \<open>number_constraints\<close>
  entries when the norm test passes, untouched otherwise.
\<close>

definition compute_least_square_multipliers ::
  "Model \<Rightarrow> ((real \<times> nat \<times> nat) list \<Rightarrow> real list \<Rightarrow> real list) \<Rightarrow> real list \<Rightarrow> Iterate
     \<Rightarrow> real list \<Rightarrow> real \<Rightarrow> real list" where
  "compute_least_square_multipliers model linear_solver rhs current_iterate multipliers_vector multiplier_max_norm =
     (let solution = linear_solver (least_square_matrix model current_iterate)
                                   (least_square_rhs model current_iterate rhs)
      in if norm_inf_range solution (number_variables model)
              (number_variables model + number_constraints model) \<le> multiplier_max_norm
         then foldl (store_at (number_variables model) solution) multipliers_vector
                [0..<number_constraints model]
         else multipliers_vector)"

text \<open>
  The last step of \<^verbatim>\<open>PrimalDualInteriorPointMethod::generate_initial_iterate\<close>:
  \<^verbatim>\<open>if (0 < problem.number_constraints)\<close> the least-square estimate is written into
  \<^verbatim>\<open>initial_iterate.multipliers.constraints\<close>.
\<close>

definition generate_initial_constraint_multipliers ::
  "Model \<Rightarrow> ((real \<times> nat \<times> nat) list \<Rightarrow> real list \<Rightarrow> real list) \<Rightarrow> real list \<Rightarrow> Iterate
     \<Rightarrow> real \<Rightarrow> Iterate" where
  "generate_initial_constraint_multipliers model linear_solver rhs initial_iterate least_square_multiplier_max_norm =
     (if 0 < number_constraints model
      then initial_iterate\<lparr> multipliers := (multipliers initial_iterate)\<lparr> constraints :=
             compute_least_square_multipliers model linear_solver rhs initial_iterate
               (constraints (multipliers initial_iterate)) least_square_multiplier_max_norm \<rparr> \<rparr>
      else initial_iterate)"

text \<open>
  An instance with one variable and one constraint: \<open>\<nabla>f = 2\<close>, \<open>\<nabla>c = 1\<close>, bound multipliers
  zero. The system \<open>x + y = r\<^sub>0\<close>, \<open>x = r\<^sub>1\<close> has the solution \<open>(r\<^sub>1, r\<^sub>0 - r\<^sub>1)\<close>, which is what
  the example solver returns; here it is \<open>(0, 2)\<close>, a least-square multiplier of \<open>2\<close>.
\<close>

definition example_model :: Model where
  "example_model = \<lparr> number_variables = 1, number_constraints = 1, objective_sign = 1,
                     is_constrained = True \<rparr>"

definition example_linear_solver :: "(real \<times> nat \<times> nat) list \<Rightarrow> real list \<Rightarrow> real list" where
  "example_linear_solver matrix rhs = [rhs ! 1, rhs ! 0 - rhs ! 1]"

definition zero_residuals :: DualResiduals where
  "zero_residuals = \<lparr> stationarity = 0, complementarity = 0, stationarity_scaling = 1,
                      complementarity_scaling = 1 \<rparr>"

definition example_initial_iterate :: "real \<Rightarrow> Iterate" where
  "example_initial_iterate initial_dual =
     \<lparr> primals = [1],
       multipliers = \<lparr> constraints = [initial_dual], lower_bounds = [0], upper_bounds = [0] \<rparr>,
       feasibility_multipliers = \<lparr> constraints = [0], lower_bounds = [0], upper_bounds = [0] \<rparr>,
       evaluations = \<lparr> objective_eval = 1, constraints_eval = [1], objective_gradient = [(0, 2)],
                       constraint_jacobian = [[(0, 1)]] \<rparr>,
       is_objective_computed = True,
       progress = \<lparr> infeasibility = 1, objective = scaled_objective 1, auxiliary = 0 \<rparr>,
       residuals = zero_residuals,
       feasibility_residuals = zero_residuals,
       primal_feasibility = 1,
       objective_multiplier = 1 \<rparr>"

section \<open>Interior point: bound duals and the fraction-to-boundary rule\<close>

text \<open>
  What the barrier subproblem reads of the reformulated problem: its sizes, the variable
  bounds and the index collections of the variables with a finite lower (upper) bound.
\<close>

record OptimizationProblem =
  problem_number_variables :: nat
  problem_number_constraints :: nat
  variable_lower_bound :: "nat \<Rightarrow> real"
  variable_upper_bound :: "nat \<Rightarrow> real"
  lower_bounded_variables :: "nat list"
  upper_bounded_variables :: "nat list"

record InteriorPointParameters =
  tau_min :: real
  k_sigma :: real
  regularization_exponent :: real
  small_direction_factor :: real
  push_variable_to_interior_k1 :: real
  push_variable_to_interior_k2 :: real

text \<open>An \<^verbatim>\<open>assert\<close> that fires, with its message.\<close>

datatype assertion_failure = AssertionFailure string

text \<open>
  One pass of each \<^verbatim>\<open>for_each\<close> body of
  \<^verbatim>\<open>PrimalDualInteriorPointSubproblem::primal_fraction_to_boundary\<close>. The primal part of
  \<^verbatim>\<open>augmented_system.solution\<close> is the argument \<open>solution\<close>.
\<close>

definition primal_lower_step ::
  "OptimizationProblem \<Rightarrow> Iterate \<Rightarrow> real list \<Rightarrow> real \<Rightarrow> real \<Rightarrow> nat \<Rightarrow> real" where
  "primal_lower_step problem current_iterate solution tau primal_length variable_index =
     (if solution ! variable_index < 0
      then (let trial_alpha_xi =
                  - tau * (primals current_iterate ! variable_index
                            - variable_lower_bound problem variable_index)
                  / solution ! variable_index
            in if 0 < trial_alpha_xi then min primal_length trial_alpha_xi else primal_length)
      else primal_length)"

definition primal_upper_step ::
  "OptimizationProblem \<Rightarrow> Iterate \<Rightarrow> real list \<Rightarrow> real \<Rightarrow> real \<Rightarrow> nat \<Rightarrow> real" where
  "primal_upper_step problem current_iterate solution tau primal_length variable_index =
     (if 0 < solution ! variable_index
      then (let trial_alpha_xi =
                  - tau * (primals current_iterate ! variable_index
                            - variable_upper_bound problem variable_index)
                  / solution ! variable_index
            in if 0 < trial_alpha_xi then min primal_length trial_alpha_xi else primal_length)
      else primal_length)"

definition primal_length_loops ::
  "OptimizationProblem \<Rightarrow> Iterate \<Rightarrow> real list \<Rightarrow> real \<Rightarrow> real" where
  "primal_length_loops problem current_iterate solution tau =
     foldl (primal_upper_step problem current_iterate solution tau)
       (foldl (primal_lower_step problem current_iterate solution tau) 1
          (lower_bounded_variables problem))
       (upper_bounded_variables problem)"

definition primal_fraction_to_boundary ::
  "OptimizationProblem \<Rightarrow> Iterate \<Rightarrow> real list \<Rightarrow> real \<Rightarrow> assertion_failure + real" where
  "primal_fraction_to_boundary problem current_iterate solution tau =
     (let primal_length = primal_length_loops problem current_iterate solution tau
      in if 0 < primal_length \<and> primal_length \<le> 1 then Inr primal_length
         else Inl (AssertionFailure ''The primal fraction-to-boundary factor is not in (0, 1]''))"

text \<open>The same for \<^verbatim>\<open>dual_fraction_to_boundary\<close>, over the bound multiplier displacements.\<close>

definition dual_lower_step :: "Iterate \<Rightarrow> real list \<Rightarrow> real \<Rightarrow> real \<Rightarrow> nat \<Rightarrow> real" where
  "dual_lower_step current_iterate lower_delta_z tau dual_length variable_index =
     (if lower_delta_z ! variable_index < 0
      then (let trial_alpha_zj =
                  - tau * lower_bounds (multipliers current_iterate) ! variable_index
                  / lower_delta_z ! variable_index
            in if 0 < trial_alpha_zj then min dual_length trial_alpha_zj else dual_length)
      else dual_length)"

definition dual_upper_step :: "Iterate \<Rightarrow> real list \<Rightarrow> real \<Rightarrow> real \<Rightarrow> nat \<Rightarrow> real" where
  "dual_upper_step current_iterate upper_delta_z tau dual_length variable_index =
     (if 0 < upper_delta_z ! variable_index
      then (let trial_alpha_zj =
                  - tau * upper_bounds (multipliers current_iterate) ! variable_index
                  / upper_delta_z ! variable_index
            in if 0 < trial_alpha_zj then min dual_length trial_alpha_zj else dual_length)
      else dual_length)"

definition dual_length_loops ::
  "OptimizationProblem \<Rightarrow> Iterate \<Rightarrow> real list \<Rightarrow> real list \<Rightarrow> real \<Rightarrow> real" where
  "dual_length_loops problem current_iterate lower_delta_z upper_delta_z tau =
     foldl (dual_upper_step current_iterate upper_delta_z tau)
       (foldl (dual_lower_step current_iterate lower_delta_z tau) 1
          (lower_bounded_variables problem))
       (upper_bounded_variables problem)"

definition dual_fraction_to_boundary ::
  "OptimizationProblem \<Rightarrow> Iterate \<Rightarrow> real list \<Rightarrow> real list \<Rightarrow> real \<Rightarrow> assertion_failure + real" where
  "dual_fraction_to_boundary problem current_iterate lower_delta_z upper_delta_z tau =
     (let dual_length = dual_length_loops problem current_iterate lower_delta_z upper_delta_z tau
      in if 0 < dual_length \<and> dual_length \<le> 1 then Inr dual_length
         else Inl (AssertionFailure ''The dual fraction-to-boundary factor is not in (0, 1]''))"

text \<open>
  \<^verbatim>\<open>compute_bound_dual_direction\<close>: both displacement vectors are zeroed, then filled on the
  bounded variables. Over the reals the quotient is not finite exactly when the distance to
  the bound is zero, which is when the \<^verbatim>\<open>is_finite\<close> assertion fires.
\<close>

fun lower_delta_z_loop ::
  "OptimizationProblem \<Rightarrow> Iterate \<Rightarrow> real list \<Rightarrow> real \<Rightarrow> nat list \<Rightarrow> real list
     \<Rightarrow> assertion_failure + real list" where
  "lower_delta_z_loop problem current_iterate solution mu [] lower_delta_z = Inr lower_delta_z"
| "lower_delta_z_loop problem current_iterate solution mu (variable_index # rest) lower_delta_z =
     (let distance_to_bound = primals current_iterate ! variable_index
                              - variable_lower_bound problem variable_index
      in if distance_to_bound = 0
         then Inl (AssertionFailure ''The displacement lower_delta_z is infinite'')
         else lower_delta_z_loop problem current_iterate solution mu rest
                (lower_delta_z[variable_index :=
                   (mu - solution ! variable_index
                           * lower_bounds (multipliers current_iterate) ! variable_index)
                   / distance_to_bound
                   - lower_bounds (multipliers current_iterate) ! variable_index]))"

fun upper_delta_z_loop ::
  "OptimizationProblem \<Rightarrow> Iterate \<Rightarrow> real list \<Rightarrow> real \<Rightarrow> nat list \<Rightarrow> real list
     \<Rightarrow> assertion_failure + real list" where
  "upper_delta_z_loop problem current_iterate solution mu [] upper_delta_z = Inr upper_delta_z"
| "upper_delta_z_loop problem current_iterate solution mu (variable_index # rest) upper_delta_z =
     (let distance_to_bound = primals current_iterate ! variable_index
                              - variable_upper_bound problem variable_index
      in if distance_to_bound = 0
         then Inl (AssertionFailure ''The displacement upper_delta_z is infinite'')
         else upper_delta_z_loop problem current_iterate solution mu rest
                (upper_delta_z[variable_index :=
                   (mu - solution ! variable_index
                           * upper_bounds (multipliers current_iterate) ! variable_index)
                   / distance_to_bound
                   - upper_bounds (multipliers current_iterate) ! variable_index]))"

definition compute_bound_dual_direction ::
  "OptimizationProblem \<Rightarrow> Iterate \<Rightarrow> real list \<Rightarrow> real \<Rightarrow> nat
     \<Rightarrow> assertion_failure + (real list \<times> real list)" where
  "compute_bound_dual_direction problem current_iterate solution mu max_number_variables =
     (case lower_delta_z_loop problem current_iterate solution mu (lower_bounded_variables problem)
             (replicate max_number_variables 0) of
        Inl failure \<Rightarrow> Inl failure
      | Inr lower_delta_z \<Rightarrow>
          (case upper_delta_z_loop problem current_iterate solution mu (upper_bounded_variables problem)
                  (replicate max_number_variables 0) of
             Inl failure \<Rightarrow> Inl failure
           | Inr upper_delta_z \<Rightarrow> Inr (lower_delta_z, upper_delta_z)))"

text \<open>
  The direction the barrier subproblem emits: primal step, multiplier displacements and the
  two step lengths. (\<^verbatim>\<open>subproblem_objective\<close>, a quadratic form in the Hessian, is left out:
  no step length depends on it.)
\<close>

record BarrierDirection =
  barrier_primals :: "real list"
  barrier_multipliers :: Multipliers
  primal_dual_step_length :: real
  bound_dual_step_length :: real

text \<open>
  \<^verbatim>\<open>assemble_primal_dual_direction\<close>. \<open>solution\<close> is the solution of the augmented system
  \<open>(\<Delta>x, -\<Delta>\<lambda>)\<close>; the dual block changes sign first. \<open>mu\<close> is the barrier parameter.
\<close>

definition flip_duals :: "nat \<Rightarrow> real list \<Rightarrow> real list" where
  "flip_duals n solution = take n solution @ map uminus (drop n solution)"

definition assemble_primal_dual_direction ::
  "InteriorPointParameters \<Rightarrow> real \<Rightarrow> nat \<Rightarrow> OptimizationProblem \<Rightarrow> Iterate \<Rightarrow> real list
     \<Rightarrow> assertion_failure + BarrierDirection" where
  "assemble_primal_dual_direction parameters mu max_number_variables problem current_iterate solution =
     (let flipped = flip_duals (problem_number_variables problem) solution;
          tau = max (tau_min parameters) (1 - mu)
      in case primal_fraction_to_boundary problem current_iterate flipped tau of
           Inl failure \<Rightarrow> Inl failure
         | Inr primal_length \<Rightarrow>
            (case compute_bound_dual_direction problem current_iterate flipped mu max_number_variables of
               Inl failure \<Rightarrow> Inl failure
             | Inr (lower_delta_z, upper_delta_z) \<Rightarrow>
                (case dual_fraction_to_boundary problem current_iterate lower_delta_z upper_delta_z tau of
                   Inl failure \<Rightarrow> Inl failure
                 | Inr dual_length \<Rightarrow>
                     Inr \<lparr> barrier_primals = take (problem_number_variables problem) flipped,
                           barrier_multipliers =
                             \<lparr> constraints = take (problem_number_constraints problem)
                                               (drop (problem_number_variables problem) flipped),
                               lower_bounds = take (problem_number_variables problem) lower_delta_z,
                               upper_bounds = take (problem_number_variables problem) upper_delta_z \<rparr>,
                           primal_dual_step_length = primal_length,
                           bound_dual_step_length = dual_length \<rparr>)))"

text \<open>
  The two factors in the words of the specification: the minimum, capped at one, of
  \<open>-\<tau>(x - xL)/\<Delta>x\<close> over the lower-bounded coordinates with \<open>\<Delta>x < 0\<close> and of
  \<open>-\<tau>(x - xU)/\<Delta>x\<close> over the upper-bounded coordinates with \<open>\<Delta>x > 0\<close>; for the duals the
  same with \<open>zL, \<Delta>zL\<close> and \<open>zU, \<Delta>zU\<close>.
\<close>

definition spec_primal_fraction ::
  "OptimizationProblem \<Rightarrow> Iterate \<Rightarrow> real list \<Rightarrow> real \<Rightarrow> real" where
  "spec_primal_fraction problem current_iterate dx tau =
     Min (set (1 #
       map (\<lambda>i. - tau * (primals current_iterate ! i - variable_lower_bound problem i) / dx ! i)
           (filter (\<lambda>i. dx ! i < 0) (lower_bounded_variables problem))
       @ map (\<lambda>i. - tau * (primals current_iterate ! i - variable_upper_bound problem i) / dx ! i)
           (filter (\<lambda>i. 0 < dx ! i) (upper_bounded_variables problem))))"

definition spec_dual_fraction ::
  "OptimizationProblem \<Rightarrow> Iterate \<Rightarrow> real list \<Rightarrow> real list \<Rightarrow> real \<Rightarrow> real" where
  "spec_dual_fraction problem current_iterate dzL dzU tau =
     Min (set (1 #
       map (\<lambda>i. - tau * lower_bounds (multipliers current_iterate) ! i / dzL ! i)
           (filter (\<lambda>i. dzL ! i < 0) (lower_bounded_variables problem))
       @ map (\<lambda>i. - tau * upper_bounds (multipliers current_iterate) ! i / dzU ! i)
           (filter (\<lambda>i. 0 < dzU ! i) (upper_bounded_variables problem))))"

text \<open>
  An instance with two variables and one constraint: \<open>x\<^sub>0 = 1\<close> has the lower bound \<open>0\<close>,
  \<open>x\<^sub>1 = 9\<close> the upper bound \<open>10\<close>; \<open>zL\<^sub>0 = 1\<close>, \<open>zU\<^sub>1 = -1\<close>; \<open>\<tau>_min = 0.99\<close>, \<open>\<mu> = 0.1\<close>; the
  augmented system returned \<open>(2, 3, 5)\<close>.
\<close>

definition example_variable_lower_bound :: "nat \<Rightarrow> real" where
  "example_variable_lower_bound i = 0"

definition example_variable_upper_bound :: "nat \<Rightarrow> real" where
  "example_variable_upper_bound i = 10"

definition example_barrier_problem :: OptimizationProblem where
  "example_barrier_problem =
     \<lparr> problem_number_variables = 2, problem_number_constraints = 1,
       variable_lower_bound = example_variable_lower_bound,
       variable_upper_bound = example_variable_upper_bound,
       lower_bounded_variables = [0], upper_bounded_variables = [1] \<rparr>"

definition example_parameters :: InteriorPointParameters where
  "example_parameters =
     \<lparr> tau_min = 99 / 100, k_sigma = 10000000000, regularization_exponent = 1 / 4,
       small_direction_factor = 10, push_variable_to_interior_k1 = 1 / 100,
       push_variable_to_interior_k2 = 1 / 100 \<rparr>"

definition example_barrier_iterate :: Iterate where
  "example_barrier_iterate =
     (example_initial_iterate 0)\<lparr> primals := [1, 9],
        multipliers := \<lparr> constraints = [0], lower_bounds = [1, 0], upper_bounds = [0, -1] \<rparr> \<rparr>"

section \<open>Interior point: entering and leaving the feasibility phase\<close>

text \<open>
  The members both generations of the interior-point method keep for the barrier parameter.
  \<open>barrier_parameter\<close> is the value held by the \<^verbatim>\<open>barrier_parameter_update_strategy\<close>
  (\<^verbatim>\<open>get_barrier_parameter\<close>, \<^verbatim>\<open>set_barrier_parameter\<close>).
\<close>

record BarrierMethodState =
  barrier_parameter :: real
  previous_barrier_parameter :: real
  solving_feasibility_problem :: bool
  subproblem_definition_changed :: bool

subsection \<open>\<^verbatim>\<open>PrimalDualInteriorPointMethod\<close>\<close>

record PrimalDualInteriorPointMethod = BarrierMethodState +
  first_feasibility_iteration :: bool

definition initialize_feasibility_problem ::
  "PrimalDualInteriorPointMethod \<Rightarrow> Iterate \<Rightarrow> PrimalDualInteriorPointMethod" where
  "initialize_feasibility_problem s current_iterate =
     s\<lparr> solving_feasibility_problem := True,
        first_feasibility_iteration := True,
        subproblem_definition_changed := True,
        previous_barrier_parameter := barrier_parameter s,
        barrier_parameter := max (barrier_parameter s) (primal_feasibility current_iterate) \<rparr>"

definition exit_feasibility_problem ::
  "PrimalDualInteriorPointMethod \<Rightarrow> PrimalDualInteriorPointMethod" where
  "exit_feasibility_problem s =
     s\<lparr> barrier_parameter := previous_barrier_parameter s,
        solving_feasibility_problem := False \<rparr>"

text \<open>
  \<^verbatim>\<open>update_barrier_parameter\<close>. The update strategy's rule is not among the sources; it is
  the parameter \<open>update_strategy\<close>, from the current barrier parameter, the iterate, the
  multipliers and the residuals to the new barrier parameter and the flag the call returns.
\<close>

definition update_barrier_parameter ::
  "(real \<Rightarrow> Iterate \<Rightarrow> Multipliers \<Rightarrow> DualResiduals \<Rightarrow> real \<times> bool)
     \<Rightarrow> PrimalDualInteriorPointMethod \<Rightarrow> Iterate \<Rightarrow> Multipliers \<Rightarrow> DualResiduals
     \<Rightarrow> PrimalDualInteriorPointMethod" where
  "update_barrier_parameter update_strategy s current_iterate current_multipliers dual_residuals =
     (case update_strategy (barrier_parameter s) current_iterate current_multipliers dual_residuals of
        (new_barrier_parameter, barrier_parameter_updated) \<Rightarrow>
          s\<lparr> barrier_parameter := new_barrier_parameter,
             subproblem_definition_changed :=
               subproblem_definition_changed s \<or> barrier_parameter_updated \<rparr>)"

text \<open>
  The opening of \<^verbatim>\<open>PrimalDualInteriorPointMethod::solve\<close> ("possibly update the barrier
  parameter"). Nothing after it in \<^verbatim>\<open>solve\<close> writes to these members.
\<close>

definition solve_barrier_update ::
  "(real \<Rightarrow> Iterate \<Rightarrow> Multipliers \<Rightarrow> DualResiduals \<Rightarrow> real \<times> bool)
     \<Rightarrow> PrimalDualInteriorPointMethod \<Rightarrow> Iterate \<times> Multipliers \<Rightarrow> PrimalDualInteriorPointMethod" where
  "solve_barrier_update update_strategy s call =
     (case call of (current_iterate, current_multipliers) \<Rightarrow>
        (let dual_residuals = (if solving_feasibility_problem s
                               then feasibility_residuals current_iterate
                               else residuals current_iterate)
         in if \<not> first_feasibility_iteration s
            then update_barrier_parameter update_strategy s current_iterate current_multipliers
                   dual_residuals
            else s\<lparr> first_feasibility_iteration := False \<rparr>))"

subsection \<open>\<^verbatim>\<open>PrimalDualInteriorPointSubproblem\<close>, the earlier generation\<close>

text \<open>\<open>subproblem_constraints\<close> is the member \<^verbatim>\<open>evaluations.constraints\<close>.\<close>

record PrimalDualInteriorPointSubproblem = BarrierMethodState +
  subproblem_constraints :: "real list"

definition subproblem_initialize_feasibility_problem ::
  "PrimalDualInteriorPointSubproblem \<Rightarrow> PrimalDualInteriorPointSubproblem" where
  "subproblem_initialize_feasibility_problem s =
     s\<lparr> solving_feasibility_problem := True,
        subproblem_definition_changed := True,
        previous_barrier_parameter := barrier_parameter s,
        barrier_parameter := max (barrier_parameter s)
           (norm_inf_range (subproblem_constraints s) 0 (length (subproblem_constraints s))) \<rparr>"

text \<open>
  \<^verbatim>\<open>exit_feasibility_problem\<close> asserts that the feasibility problem was being solved. (The
  least-square multipliers it then computes change the trial iterate, not these members.)
\<close>

definition subproblem_exit_feasibility_problem ::
  "PrimalDualInteriorPointSubproblem \<Rightarrow> assertion_failure + PrimalDualInteriorPointSubproblem" where
  "subproblem_exit_feasibility_problem s =
     (if solving_feasibility_problem s
      then Inr (s\<lparr> barrier_parameter := previous_barrier_parameter s,
                   solving_feasibility_problem := False \<rparr>)
      else Inl (AssertionFailure
        ''The barrier subproblem did not know it was solving the feasibility problem.''))"

definition subproblem_update_barrier_parameter ::
  "(real \<Rightarrow> Iterate \<Rightarrow> real \<times> bool)
     \<Rightarrow> PrimalDualInteriorPointSubproblem \<Rightarrow> Iterate \<Rightarrow> PrimalDualInteriorPointSubproblem" where
  "subproblem_update_barrier_parameter update_strategy s current_iterate =
     (case update_strategy (barrier_parameter s) current_iterate of
        (new_barrier_parameter, barrier_parameter_updated) \<Rightarrow>
          s\<lparr> barrier_parameter := new_barrier_parameter,
             subproblem_definition_changed :=
               subproblem_definition_changed s \<or> barrier_parameter_updated \<rparr>)"

text \<open>
  The opening of \<^verbatim>\<open>PrimalDualInteriorPointSubproblem::solve\<close>:
  \<^verbatim>\<open>if (not this->solving_feasibility_problem) update_barrier_parameter(...)\<close>.
\<close>

definition subproblem_solve_barrier_update ::
  "(real \<Rightarrow> Iterate \<Rightarrow> real \<times> bool)
     \<Rightarrow> PrimalDualInteriorPointSubproblem \<Rightarrow> Iterate \<Rightarrow> PrimalDualInteriorPointSubproblem" where
  "subproblem_solve_barrier_update update_strategy s current_iterate =
     (if \<not> solving_feasibility_problem s
      then subproblem_update_barrier_parameter update_strategy s current_iterate
      else s)"

text \<open>
  Instances: a method with \<open>\<mu> = 0.1\<close>; an iterate whose constraint value is \<open>2\<close> and whose
  primal feasibility (the violation of an equality constraint \<open>c(x) = 1.5\<close>) is \<open>0.5\<close>; an
  update rule that halves \<open>\<mu>\<close>.
\<close>

definition example_method :: PrimalDualInteriorPointMethod where
  "example_method = \<lparr> barrier_parameter = 1 / 10, previous_barrier_parameter = 1 / 10,
     solving_feasibility_problem = False, subproblem_definition_changed = False,
     first_feasibility_iteration = False \<rparr>"

definition example_subproblem :: PrimalDualInteriorPointSubproblem where
  "example_subproblem = \<lparr> barrier_parameter = 1 / 10, previous_barrier_parameter = 1 / 10,
     solving_feasibility_problem = False, subproblem_definition_changed = False,
     subproblem_constraints = [2] \<rparr>"

definition example_infeasible_iterate :: Iterate where
  "example_infeasible_iterate =
     (example_initial_iterate 0)\<lparr>
        evaluations := (evaluations (example_initial_iterate 0))\<lparr> constraints_eval := [2] \<rparr>,
        primal_feasibility := 1 / 2 \<rparr>"

definition halving_update :: "real \<Rightarrow> Iterate \<Rightarrow> real \<times> bool" where
  "halving_update mu current_iterate = (mu / 2, True)"

section \<open>The filter method\<close>

text \<open>
  The filter is held through a pointer to a polymorphic \<^verbatim>\<open>Filter\<close>; its member functions are
  not among the sources. The method's code is modelled over any filter state \<open>'f\<close> with the
  three operations it calls, and over the reduction
  \<^verbatim>\<open>compute_actual_objective_reduction\<close>, which the method delegates.
\<close>

record 'f FilterInterface =
  acceptable :: "'f \<Rightarrow> real \<Rightarrow> real \<Rightarrow> bool"
  acceptable_wrt_current_iterate :: "'f \<Rightarrow> real \<Rightarrow> real \<Rightarrow> real \<Rightarrow> real \<Rightarrow> bool"
  add :: "'f \<Rightarrow> real \<Rightarrow> real \<Rightarrow> 'f"
  compute_actual_objective_reduction :: "'f \<Rightarrow> real \<Rightarrow> real \<Rightarrow> real \<Rightarrow> real"

text \<open>
  The strategy's state: the filter, the switching constant \<^verbatim>\<open>parameters.delta\<close>, the
  switching exponent and the Armijo constant.
\<close>

record 'f FletcherFilterMethod =
  method_filter :: 'f
  delta :: real
  switching_infeasibility_exponent :: real
  filter_armijo_decrease_fraction :: real

text \<open>
  Modelled from the spec: \<^verbatim>\<open>FilterMethod::unconstrained_merit_function\<close> is not among the
  sources. It is the objective measure plus the auxiliary measure with the infeasibility
  ignored; the call passes no multiplier and the caller's comment says the objective measure
  is scaled by 1.
\<close>

definition unconstrained_merit_function :: "ProgressMeasures \<Rightarrow> real" where
  "unconstrained_merit_function progress_measures =
     objective progress_measures 1 + auxiliary progress_measures"

text \<open>
  Modelled from the spec: \<^verbatim>\<open>SwitchingMethod::switching_condition\<close> is not among the sources.
  The specification gives it as \<open>p_merit \<ge> \<delta> \<cdot> h_cur^e\<close>.
\<close>

definition switching_condition :: "real \<Rightarrow> real \<Rightarrow> real \<Rightarrow> real \<Rightarrow> bool" where
  "switching_condition predicted_reduction current_infeasibility switching_delta exponent =
     (predicted_reduction \<ge> switching_delta * current_infeasibility powr exponent)"

text \<open>
  What one call of \<^verbatim>\<open>FletcherFilterMethod::is_iterate_acceptable\<close> produces: the verdict,
  the strategy afterwards, the scenario, the status string written to the statistics, and
  the change made to the static counter \<^verbatim>\<open>Iterate::number_eval_objective\<close>.
\<close>

record 'f filter_outcome =
  filter_accept :: bool
  filter_strategy :: "'f FletcherFilterMethod"
  filter_scenario :: string
  filter_status :: string
  number_eval_objective_change :: int

definition filter_verdict :: "bool \<Rightarrow> 'f FletcherFilterMethod \<Rightarrow> string \<Rightarrow> int \<Rightarrow> 'f filter_outcome" where
  "filter_verdict accept s scenario counter_change =
     \<lparr> filter_accept = accept, filter_strategy = s, filter_scenario = scenario,
       filter_status = (if accept then ''accepted'' else ''rejected'') @ '' ('' @ scenario @ '')'',
       number_eval_objective_change = counter_change \<rparr>"

definition FletcherFilterMethod_is_iterate_acceptable ::
  "'f FilterInterface \<Rightarrow> 'f FletcherFilterMethod \<Rightarrow> ProgressMeasures \<Rightarrow> ProgressMeasures
     \<Rightarrow> ProgressMeasures \<Rightarrow> real \<Rightarrow> 'f filter_outcome" where
  "FletcherFilterMethod_is_iterate_acceptable ops s current_progress trial_progress predicted_reduction sigma =
     (if sigma = 0
      then
        (if armijo_sufficient_decrease (filter_armijo_decrease_fraction s)
              (infeasibility predicted_reduction)
              (infeasibility current_progress - infeasibility trial_progress)
         then filter_verdict True s ''h-type Armijo'' (- 1)
         else filter_verdict False s ''h-type Armijo'' (- 1))
      else
        (let current_merit = unconstrained_merit_function current_progress;
             trial_merit = unconstrained_merit_function trial_progress;
             merit_predicted_reduction = unconstrained_merit_function predicted_reduction
         in if acceptable ops (method_filter s) (infeasibility trial_progress) trial_merit
            then
              (if acceptable_wrt_current_iterate ops (method_filter s)
                    (infeasibility current_progress) current_merit
                    (infeasibility trial_progress) trial_merit
               then
                 (if switching_condition merit_predicted_reduction (infeasibility current_progress)
                       (delta s) (switching_infeasibility_exponent s)
                  then
                    (let objective_actual_reduction =
                           compute_actual_objective_reduction ops (method_filter s) current_merit
                             (infeasibility current_progress) trial_merit
                     in if armijo_sufficient_decrease (filter_armijo_decrease_fraction s)
                             merit_predicted_reduction objective_actual_reduction
                        then filter_verdict True s ''f-type Armijo'' 0
                        else filter_verdict False s ''f-type Armijo'' 0)
                  else filter_verdict True
                         (s\<lparr> method_filter := add ops (method_filter s)
                                 (infeasibility current_progress) current_merit \<rparr>)
                         ''h-type'' 0)
               else filter_verdict False s ''current point'' 0)
            else filter_verdict False s ''filter'' 0))"

text \<open>
  Modelled from the spec: an instance of the filter interface over a list of
  (infeasibility, merit) entries. A point is rejected against an entry \<open>(h\<^sub>i, m\<^sub>i)\<close> when its
  infeasibility is at least \<open>(1 - \<gamma>) \<cdot> h\<^sub>i\<close> and its merit at least \<open>m\<^sub>i - \<gamma> \<cdot> h\<^sub>i\<close>; the current
  iterate is tested by the same rule; adding puts the pair in front; the actual reduction is
  the difference of the merits. Here \<open>\<gamma> = 1/1000\<close>.
\<close>

definition entry_rejects :: "real \<Rightarrow> real \<Rightarrow> real \<times> real \<Rightarrow> bool" where
  "entry_rejects h m entry =
     (h \<ge> (1 - 1 / 1000) * fst entry \<and> m \<ge> snd entry - 1 / 1000 * fst entry)"

definition list_filter_acceptable :: "(real \<times> real) list \<Rightarrow> real \<Rightarrow> real \<Rightarrow> bool" where
  "list_filter_acceptable entries h m = (\<not> list_ex (entry_rejects h m) entries)"

definition list_filter_acceptable_wrt_current_iterate ::
  "(real \<times> real) list \<Rightarrow> real \<Rightarrow> real \<Rightarrow> real \<Rightarrow> real \<Rightarrow> bool" where
  "list_filter_acceptable_wrt_current_iterate entries current_h current_m trial_h trial_m =
     (\<not> entry_rejects trial_h trial_m (current_h, current_m))"

definition list_filter_add :: "(real \<times> real) list \<Rightarrow> real \<Rightarrow> real \<Rightarrow> (real \<times> real) list" where
  "list_filter_add entries h m = (h, m) # entries"

definition list_filter_actual_reduction :: "(real \<times> real) list \<Rightarrow> real \<Rightarrow> real \<Rightarrow> real \<Rightarrow> real" where
  "list_filter_actual_reduction entries current_m current_h trial_m = current_m - trial_m"

definition list_filter :: "(real \<times> real) list FilterInterface" where
  "list_filter = \<lparr> acceptable = list_filter_acceptable,
                   acceptable_wrt_current_iterate = list_filter_acceptable_wrt_current_iterate,
                   add = list_filter_add,
                   compute_actual_objective_reduction = list_filter_actual_reduction \<rparr>"

text \<open>
  An instance: the filter holds \<open>(2, 5)\<close>; the current point is \<open>(h, merit) = (1, 10)\<close>, the
  trial point \<open>(1/2, 51/5)\<close>; the predicted merit reduction is \<open>0\<close>.
\<close>

definition example_filter_method :: "(real \<times> real) list FletcherFilterMethod" where
  "example_filter_method = \<lparr> method_filter = [(2, 5)], delta = 999 / 1000,
     switching_infeasibility_exponent = 2, filter_armijo_decrease_fraction = 1 / 10000 \<rparr>"

definition example_current_progress :: ProgressMeasures where
  "example_current_progress = \<lparr> infeasibility = 1, objective = scaled_objective 10, auxiliary = 0 \<rparr>"

definition example_trial_progress :: ProgressMeasures where
  "example_trial_progress = \<lparr> infeasibility = 1 / 2, objective = scaled_objective (51 / 5), auxiliary = 0 \<rparr>"

definition example_predicted_reduction :: ProgressMeasures where
  "example_predicted_reduction =
     \<lparr> infeasibility = 1 / 2, objective = predicted_objective_reduction 1 0 0, auxiliary = 0 \<rparr>"

section \<open>The relaxation layer: termination test\<close>

text \<open>
  Modelled from the spec: the declaration of \<^verbatim>\<open>IterateStatus\<close> is not among the sources.
  The code names \<^verbatim>\<open>NOT_OPTIMAL\<close>, \<^verbatim>\<open>FEASIBLE_KKT_POINT\<close>, \<^verbatim>\<open>INFEASIBLE_STATIONARY_POINT\<close>
  and \<^verbatim>\<open>UNBOUNDED\<close>; the specification's list of statuses also has the small-step outcomes.
\<close>

datatype IterateStatus =
    NOT_OPTIMAL
  | FEASIBLE_KKT_POINT
  | INFEASIBLE_STATIONARY_POINT
  | FEASIBLE_SMALL_STEP
  | INFEASIBLE_SMALL_STEP
  | UNBOUNDED

text \<open>
  The members of \<^verbatim>\<open>ConstraintRelaxationStrategy\<close> the termination test reads, and the one
  it writes, the counter \<^verbatim>\<open>loose_tolerance_consecutive_iterations\<close>.
\<close>

record ConstraintRelaxationStrategy =
  tight_tolerance :: real
  loose_tolerance :: real
  loose_tolerance_consecutive_iteration_threshold :: nat
  unbounded_objective_threshold :: real
  loose_tolerance_consecutive_iterations :: nat

text \<open>
  \<^verbatim>\<open>check_first_order_convergence\<close>. \<^verbatim>\<open>Multipliers::not_all_zero\<close> is not among the sources;
  it is the parameter \<open>not_all_zero\<close>.
\<close>

definition check_first_order_convergence ::
  "(Multipliers \<Rightarrow> nat \<Rightarrow> real \<Rightarrow> bool) \<Rightarrow> Model \<Rightarrow> Iterate \<Rightarrow> real \<Rightarrow> IterateStatus" where
  "check_first_order_convergence not_all_zero model current_iterate tolerance =
     (let stationarity_ok = (stationarity (residuals current_iterate)
                              / stationarity_scaling (residuals current_iterate) \<le> tolerance);
          primal_feasibility_ok = (primal_feasibility current_iterate \<le> tolerance);
          complementarity_ok = (complementarity (residuals current_iterate)
                              / complementarity_scaling (residuals current_iterate) \<le> tolerance);
          feasibility_stationarity =
            (stationarity (feasibility_residuals current_iterate) \<le> tolerance);
          feasibility_complementarity =
            (complementarity (feasibility_residuals current_iterate) \<le> tolerance);
          no_trivial_duals = not_all_zero (feasibility_multipliers current_iterate)
                               (number_variables model) tolerance
      in if stationarity_ok \<and> primal_feasibility_ok \<and> 0 < objective_multiplier current_iterate
            \<and> complementarity_ok
         then FEASIBLE_KKT_POINT
         else if is_constrained model \<and> feasibility_stationarity \<and> \<not> primal_feasibility_ok
                 \<and> feasibility_complementarity \<and> no_trivial_duals
         then INFEASIBLE_STATIONARY_POINT
         else NOT_OPTIMAL)"

record termination_outcome =
  status :: IterateStatus
  strategy_after :: ConstraintRelaxationStrategy
  iterate_after :: Iterate

text \<open>
  \<^verbatim>\<open>check_termination\<close>. Recomputing the residuals evaluates the model's functions; it is the
  parameter \<open>compute_primal_dual_residuals\<close>, from the iterate to the iterate with its
  residuals filled in.
\<close>

definition check_termination ::
  "(Multipliers \<Rightarrow> nat \<Rightarrow> real \<Rightarrow> bool) \<Rightarrow> (Iterate \<Rightarrow> Iterate) \<Rightarrow> Model
     \<Rightarrow> ConstraintRelaxationStrategy \<Rightarrow> Iterate \<Rightarrow> termination_outcome" where
  "check_termination not_all_zero compute_primal_dual_residuals model s current_iterate =
     (if is_objective_computed current_iterate
         \<and> objective_eval (evaluations current_iterate) < unbounded_objective_threshold s
      then \<lparr> status = UNBOUNDED, strategy_after = s, iterate_after = current_iterate \<rparr>
      else
        (let evaluated = compute_primal_dual_residuals current_iterate;
             status_tight_tolerance =
               check_first_order_convergence not_all_zero model evaluated (tight_tolerance s)
         in if status_tight_tolerance \<noteq> NOT_OPTIMAL \<or> loose_tolerance s \<le> tight_tolerance s
            then \<lparr> status = status_tight_tolerance, strategy_after = s, iterate_after = evaluated \<rparr>
            else
              (let status_loose_tolerance =
                     check_first_order_convergence not_all_zero model evaluated (loose_tolerance s)
               in if status_loose_tolerance \<noteq> NOT_OPTIMAL
                  then
                    (let counted = s\<lparr> loose_tolerance_consecutive_iterations :=
                                        loose_tolerance_consecutive_iterations s + 1 \<rparr>
                     in if loose_tolerance_consecutive_iteration_threshold counted
                             \<le> loose_tolerance_consecutive_iterations counted
                        then \<lparr> status = status_loose_tolerance, strategy_after = counted,
                               iterate_after = evaluated \<rparr>
                        else \<lparr> status = NOT_OPTIMAL, strategy_after = counted,
                               iterate_after = evaluated \<rparr>)
                  else \<lparr> status = NOT_OPTIMAL,
                         strategy_after = s\<lparr> loose_tolerance_consecutive_iterations := 0 \<rparr>,
                         iterate_after = evaluated \<rparr>)))"

text \<open>
  The driver calls \<^verbatim>\<open>check_termination\<close> once per outer iteration and goes on while the
  answer is \<^verbatim>\<open>NOT_OPTIMAL\<close>. \<open>check_terminations\<close> is a run of such calls on successive
  iterates: the statuses returned, in order, and the strategy after the last call.
\<close>

fun check_terminations ::
  "(Multipliers \<Rightarrow> nat \<Rightarrow> real \<Rightarrow> bool) \<Rightarrow> (Iterate \<Rightarrow> Iterate) \<Rightarrow> Model
     \<Rightarrow> ConstraintRelaxationStrategy \<Rightarrow> Iterate list \<Rightarrow> IterateStatus list \<times> ConstraintRelaxationStrategy" where
  "check_terminations not_all_zero compute_primal_dual_residuals model s [] = ([], s)"
| "check_terminations not_all_zero compute_primal_dual_residuals model s (current_iterate # rest) =
     (let outcome = check_termination not_all_zero compute_primal_dual_residuals model s current_iterate;
          later = check_terminations not_all_zero compute_primal_dual_residuals model
                    (strategy_after outcome) rest
      in (status outcome # fst later, snd later))"

text \<open>Whether the loose-tolerance test holds at an iterate, and whether a call gets as far as it.\<close>

definition loose_test_holds ::
  "(Multipliers \<Rightarrow> nat \<Rightarrow> real \<Rightarrow> bool) \<Rightarrow> (Iterate \<Rightarrow> Iterate) \<Rightarrow> Model
     \<Rightarrow> ConstraintRelaxationStrategy \<Rightarrow> Iterate \<Rightarrow> bool" where
  "loose_test_holds not_all_zero compute_primal_dual_residuals model s current_iterate =
     (check_first_order_convergence not_all_zero model
        (compute_primal_dual_residuals current_iterate) (loose_tolerance s) \<noteq> NOT_OPTIMAL)"

definition reaches_loose_test ::
  "(Multipliers \<Rightarrow> nat \<Rightarrow> real \<Rightarrow> bool) \<Rightarrow> (Iterate \<Rightarrow> Iterate) \<Rightarrow> Model
     \<Rightarrow> ConstraintRelaxationStrategy \<Rightarrow> Iterate \<Rightarrow> bool" where
  "reaches_loose_test not_all_zero compute_primal_dual_residuals model s current_iterate =
     (\<not> (is_objective_computed current_iterate
          \<and> objective_eval (evaluations current_iterate) < unbounded_objective_threshold s)
      \<and> check_first_order_convergence not_all_zero model
           (compute_primal_dual_residuals current_iterate) (tight_tolerance s) = NOT_OPTIMAL
      \<and> tight_tolerance s < loose_tolerance s)"

text \<open>
  Instances: tolerances \<open>10\<^sup>-\<^sup>8\<close> and \<open>10\<^sup>-\<^sup>3\<close>, threshold \<open>K = 2\<close>; an iterate whose only nonzero
  residual is a stationarity error of \<open>10\<^sup>-\<^sup>4\<close> (the loose test holds, the tight one does not)
  and one whose stationarity error is \<open>1\<close> (neither holds); residuals already stored in the
  iterate; all feasibility multipliers zero.
\<close>

definition example_strategy :: ConstraintRelaxationStrategy where
  "example_strategy = \<lparr> tight_tolerance = 1 / 100000000, loose_tolerance = 1 / 1000,
     loose_tolerance_consecutive_iteration_threshold = 2,
     unbounded_objective_threshold = - 1000,
     loose_tolerance_consecutive_iterations = 0 \<rparr>"

definition all_zero_duals :: "Multipliers \<Rightarrow> nat \<Rightarrow> real \<Rightarrow> bool" where
  "all_zero_duals duals n tolerance = False"

definition stored_residuals :: "Iterate \<Rightarrow> Iterate" where
  "stored_residuals current_iterate = current_iterate"

definition example_iterate_with_stationarity :: "real \<Rightarrow> Iterate" where
  "example_iterate_with_stationarity error =
     (example_initial_iterate 0)\<lparr>
        residuals := zero_residuals\<lparr> stationarity := error \<rparr>,
        primal_feasibility := 0 \<rparr>"

section \<open>The relaxation layer: accepting a trial iterate\<close>

text \<open>
  \<^verbatim>\<open>ConstraintRelaxationStrategy::is_iterate_acceptable\<close> works through references to a
  globalization strategy, an inequality handling method, the problem and the user callbacks.
  Their member functions are the fields of \<open>Collaborators\<close>, over any strategy state \<open>'g\<close>:
  \<^item> \<open>strategy_reset\<close> and \<open>strategy_is_iterate_acceptable\<close> are the strategy's virtual
    \<^verbatim>\<open>reset\<close> and \<^verbatim>\<open>is_iterate_acceptable\<close> (the latter returns its verdict and the strategy
    as it leaves it);
  \<^item> \<open>postprocess_iterate\<close> and \<open>set_auxiliary_measure\<close> are the method's;
  \<^item> \<open>evaluate_progress_measures\<close>, \<open>evaluate_objective\<close> and
    \<open>compute_predicted_reductions\<close> evaluate the model's functions.
\<close>

record 'g Collaborators =
  strategy_reset :: "'g \<Rightarrow> 'g"
  strategy_is_iterate_acceptable ::
    "'g \<Rightarrow> ProgressMeasures \<Rightarrow> ProgressMeasures \<Rightarrow> ProgressMeasures \<Rightarrow> real \<Rightarrow> bool \<times> 'g"
  postprocess_iterate :: "real list \<Rightarrow> Multipliers \<Rightarrow> real list \<times> Multipliers"
  set_auxiliary_measure :: "Iterate \<Rightarrow> Iterate"
  evaluate_progress_measures :: "Iterate \<Rightarrow> Iterate"
  evaluate_objective :: "Iterate \<Rightarrow> Iterate"
  compute_predicted_reductions :: "Iterate \<Rightarrow> Direction \<Rightarrow> real \<Rightarrow> ProgressMeasures"

text \<open>The calls one invocation makes on its collaborators, in order.\<close>

datatype collaborator_call =
    PostprocessIterate
  | StrategyReset
  | SetAuxiliaryMeasure
  | EvaluateProgressMeasures
  | EvaluateObjective
  | StatisticsSet string string
  | ComputePredictedReductions
  | StrategyIsIterateAcceptable
  | NotifyAcceptableIterate

record 'g acceptance_outcome =
  accept_iterate :: bool
  strategy_state :: 'g
  method_definition_changed :: bool
  current_iterate_after :: Iterate
  trial_iterate_after :: Iterate
  trial_multipliers_after :: Multipliers
  calls_made :: "collaborator_call list"

text \<open>
  \<^verbatim>\<open>compute_progress_measures\<close>: when the method reports that the subproblem definition
  changed, the strategy is reset, the auxiliary measure of the current iterate is recomputed
  and the flag is cleared; then the progress measures of the trial iterate are evaluated.
\<close>

definition compute_progress_measures ::
  "'g Collaborators \<Rightarrow> 'g \<Rightarrow> bool \<Rightarrow> Iterate \<Rightarrow> Iterate
     \<Rightarrow> 'g \<times> bool \<times> Iterate \<times> Iterate \<times> collaborator_call list" where
  "compute_progress_measures ops strategy definition_changed current_iterate trial_iterate =
     (if definition_changed
      then (strategy_reset ops strategy, False, set_auxiliary_measure ops current_iterate,
            evaluate_progress_measures ops trial_iterate,
            [StrategyReset, SetAuxiliaryMeasure, EvaluateProgressMeasures])
      else (strategy, definition_changed, current_iterate,
            evaluate_progress_measures ops trial_iterate, [EvaluateProgressMeasures]))"

text \<open>
  \<^verbatim>\<open>is_iterate_acceptable\<close>. \<open>sigma\<close> is \<^verbatim>\<open>problem.get_objective_multiplier()\<close>,
  \<open>definition_changed\<close> the method's flag \<^verbatim>\<open>subproblem_definition_changed\<close>, and
  \<open>norm_of_direction\<close> the member \<^verbatim>\<open>direction.norm\<close>.
\<close>

definition ConstraintRelaxationStrategy_is_iterate_acceptable ::
  "'g Collaborators \<Rightarrow> 'g \<Rightarrow> bool \<Rightarrow> real \<Rightarrow> Iterate \<Rightarrow> Iterate \<Rightarrow> Multipliers
     \<Rightarrow> Direction \<Rightarrow> real \<Rightarrow> real \<Rightarrow> 'g acceptance_outcome" where
  "ConstraintRelaxationStrategy_is_iterate_acceptable ops strategy definition_changed sigma
       current_iterate trial_iterate trial_multipliers direction norm_of_direction step_length =
     (case postprocess_iterate ops (primals trial_iterate) trial_multipliers of
        (processed_primals, processed_multipliers) \<Rightarrow>
     (case compute_progress_measures ops strategy definition_changed current_iterate
             (trial_iterate\<lparr> primals := processed_primals, objective_multiplier := sigma \<rparr>) of
        (strategy1, changed1, current1, trial1, progress_calls) \<Rightarrow>
          if norm_of_direction = 0
          then \<lparr> accept_iterate = True, strategy_state = strategy1,
                 method_definition_changed = changed1,
                 current_iterate_after = current1,
                 trial_iterate_after = evaluate_objective ops trial1,
                 trial_multipliers_after = processed_multipliers,
                 calls_made = PostprocessIterate # progress_calls
                         @ [EvaluateObjective, StatisticsSet ''status'' ''0 primal step'',
                            NotifyAcceptableIterate] \<rparr>
          else
            (let predicted_reduction =
                   compute_predicted_reductions ops current1 direction step_length
             in case strategy_is_iterate_acceptable ops strategy1 (progress current1)
                       (progress trial1) predicted_reduction sigma of
                  (verdict, strategy2) \<Rightarrow>
                    \<lparr> accept_iterate = verdict, strategy_state = strategy2,
                      method_definition_changed = changed1,
                      current_iterate_after = current1,
                      trial_iterate_after = trial1,
                      trial_multipliers_after = processed_multipliers,
                      calls_made = PostprocessIterate # progress_calls
                              @ [ComputePredictedReductions, StrategyIsIterateAcceptable]
                              @ (if verdict then [NotifyAcceptableIterate] else []) \<rparr>)))"

text \<open>
  Instances of the collaborators. For the l1 merit function, \<^verbatim>\<open>reset\<close> has an empty body.
  Modelled from the spec: \<^verbatim>\<open>FilterMethod::reset\<close> is not among the sources; the specification
  has the strategy reset when it sees the changed subproblem definition, and resetting a
  filter empties it. The remaining members do nothing in these instances.
\<close>

definition l1_reset :: "l1MeritFunction \<Rightarrow> l1MeritFunction" where
  "l1_reset s = s"

definition l1_acceptance :: 
  "l1MeritFunction \<Rightarrow> ProgressMeasures \<Rightarrow> ProgressMeasures \<Rightarrow> ProgressMeasures \<Rightarrow> real
     \<Rightarrow> bool \<times> l1MeritFunction" where
  "l1_acceptance s current_progress trial_progress predicted_reduction sigma =
     (l1_accept (l1MeritFunction_is_iterate_acceptable s current_progress trial_progress
                   predicted_reduction sigma),
      l1_strategy (l1MeritFunction_is_iterate_acceptable s current_progress trial_progress
                   predicted_reduction sigma))"

definition filter_reset :: "(real \<times> real) list FletcherFilterMethod \<Rightarrow> (real \<times> real) list FletcherFilterMethod" where
  "filter_reset s = s\<lparr> method_filter := [] \<rparr>"

definition filter_acceptance ::
  "(real \<times> real) list FletcherFilterMethod \<Rightarrow> ProgressMeasures \<Rightarrow> ProgressMeasures
     \<Rightarrow> ProgressMeasures \<Rightarrow> real \<Rightarrow> bool \<times> (real \<times> real) list FletcherFilterMethod" where
  "filter_acceptance s current_progress trial_progress predicted_reduction sigma =
     (filter_accept (FletcherFilterMethod_is_iterate_acceptable list_filter s current_progress
                       trial_progress predicted_reduction sigma),
      filter_strategy (FletcherFilterMethod_is_iterate_acceptable list_filter s current_progress
                       trial_progress predicted_reduction sigma))"

definition unchanged_iterate :: "Iterate \<Rightarrow> Iterate" where
  "unchanged_iterate current_iterate = current_iterate"

definition unchanged_duals :: "real list \<Rightarrow> Multipliers \<Rightarrow> real list \<times> Multipliers" where
  "unchanged_duals x duals = (x, duals)"

definition no_predicted_reductions :: "Iterate \<Rightarrow> Direction \<Rightarrow> real \<Rightarrow> ProgressMeasures" where
  "no_predicted_reductions current_iterate direction step_length =
     \<lparr> infeasibility = 0, objective = scaled_objective 0, auxiliary = 0 \<rparr>"

definition filter_collaborators :: "(real \<times> real) list FletcherFilterMethod Collaborators" where
  "filter_collaborators =
     \<lparr> strategy_reset = filter_reset, strategy_is_iterate_acceptable = filter_acceptance,
       postprocess_iterate = unchanged_duals, set_auxiliary_measure = unchanged_iterate,
       evaluate_progress_measures = unchanged_iterate, evaluate_objective = unchanged_iterate,
       compute_predicted_reductions = no_predicted_reductions \<rparr>"

definition l1_collaborators :: "l1MeritFunction Collaborators" where
  "l1_collaborators =
     \<lparr> strategy_reset = l1_reset, strategy_is_iterate_acceptable = l1_acceptance,
       postprocess_iterate = unchanged_duals, set_auxiliary_measure = unchanged_iterate,
       evaluate_progress_measures = unchanged_iterate, evaluate_objective = unchanged_iterate,
       compute_predicted_reductions = no_predicted_reductions \<rparr>"

definition example_l1_strategy :: l1MeritFunction where
  "example_l1_strategy = \<lparr> smallest_known_infeasibility = 3,
     protect_actual_reduction_against_roundoff = True, l1_armijo_decrease_fraction = 1 / 10000 \<rparr>"

definition zero_direction :: Direction where
  "zero_direction = \<lparr> direction_primals = [0],
     direction_multipliers = \<lparr> constraints = [0], lower_bounds = [0], upper_bounds = [0] \<rparr> \<rparr>"

section \<open>Primal regularization\<close>

record Inertia =
  inertia_positive :: nat
  inertia_negative :: nat
  inertia_zero :: nat

text \<open>
  What the regularization reads and writes of the symmetric matrix (the class is not among
  the sources): \<^verbatim>\<open>smallest_diagonal_entry(n)\<close>, here a field giving that value for each \<open>n\<close>,
  and the value \<^verbatim>\<open>set_regularization\<close> last installed on the diagonal over the given
  indices.
\<close>

record SymmetricMatrix =
  smallest_diagonal_entry :: "nat \<Rightarrow> real"
  regularization :: real

record PrimalRegularization =
  regularization_initial_value :: real
  regularization_increase_factor :: real
  regularization_failure_threshold :: real
  symbolic_analysis_performed :: bool

datatype UnstableRegularization = UnstableRegularization

text \<open>
  One call of \<^verbatim>\<open>regularize_hessian\<close> either throws or returns; \<open>outcome\<close> holds the exception
  or the matrix as it is left together with the regularization factor written to the
  statistics. \<open>factorized_with\<close> lists, in order, the regularization factors with which
  \<^verbatim>\<open>do_numerical_factorization\<close> was run, each with the inertia \<^verbatim>\<open>get_inertia\<close> then reported.
\<close>

record regularization_run =
  outcome :: "UnstableRegularization + SymmetricMatrix \<times> real"
  strategy_afterwards :: PrimalRegularization
  factorized_with :: "(real \<times> Inertia) list"














section \<open>Inertia correction of the KKT matrix in the earlier interior-point subproblem\<close>












section \<open>Theorems: the l1 merit function\<close>

lemma l1_accept_unfold:
  "l1_accept (l1MeritFunction_is_iterate_acceptable s c t p sigma) =
     armijo_sufficient_decrease (l1_armijo_decrease_fraction s)
       (objective p sigma + auxiliary p + infeasibility p)
       (compute_merit_actual_reduction s (l1_merit_value c sigma) (l1_merit_value t sigma))"
  by (simp add: l1MeritFunction_is_iterate_acceptable_def Let_def)

lemma l1_warning_unfold:
  "l1_warning (l1MeritFunction_is_iterate_acceptable s c t p sigma) =
     (objective p sigma + auxiliary p + infeasibility p \<le> 0)"
  by (simp add: l1MeritFunction_is_iterate_acceptable_def Let_def)

text \<open>
  C5 (as the code has it). The merit compared at the current and the trial point is
  \<open>objective(\<sigma>) + auxiliary + infeasibility\<close>: the infeasibility enters with coefficient one,
  there is no separate penalty weight. The trial point is accepted exactly when the actual
  reduction, to which \<open>10 \<cdot> \<epsilon> \<cdot> |\<phi>_cur|\<close> is added only if
  \<^verbatim>\<open>protect_actual_reduction_against_roundoff\<close> is set, reaches \<open>\<eta>\<close> times the predicted
  reduction \<open>p_objective(\<sigma>) + p_auxiliary + p_infeasibility\<close>; the warning is written exactly
  when that predicted reduction is \<open>\<le> 0\<close>. With the flag set the verdict is the specification's
  formula at \<open>\<rho> = 1\<close>.
\<close>

theorem l1_merit_acceptance:
  "l1_accept (l1MeritFunction_is_iterate_acceptable s c t p sigma) =
     ((l1_merit_value c sigma - l1_merit_value t sigma)
        + (if protect_actual_reduction_against_roundoff s
           then 10 * machine_epsilon * \<bar>l1_merit_value c sigma\<bar> else 0)
      \<ge> l1_armijo_decrease_fraction s * (objective p sigma + auxiliary p + infeasibility p))
   \<and> l1_warning (l1MeritFunction_is_iterate_acceptable s c t p sigma) =
     (objective p sigma + auxiliary p + infeasibility p \<le> 0)
   \<and> l1_accept (l1MeritFunction_is_iterate_acceptable
                 (s\<lparr>protect_actual_reduction_against_roundoff := True\<rparr>) c t p sigma) =
     spec_l1_accept (l1_armijo_decrease_fraction s) 1 c t p sigma"
  by (simp add: l1_accept_unfold l1_warning_unfold armijo_sufficient_decrease_def
        compute_merit_actual_reduction_def l1_merit_value_def spec_l1_accept_def spec_l1_merit_def Let_def)

text \<open>
  C5 as stated fails twice. With the round-off protection switched off, a step whose actual
  reduction is zero and whose predicted reduction is \<open>\<epsilon>\<close> is rejected by the code although the
  stated inequality holds (the infeasibility is zero, so no choice of \<open>\<rho>\<close> matters). With the
  protection on and a penalty weight \<open>\<rho> = 2\<close>, the stated merit would accept a step that the
  code, which weighs the infeasibility by one, rejects.
\<close>

theorem l1_merit_acceptance_counterexample:
  "l1_accept (l1MeritFunction_is_iterate_acceptable
       \<lparr> smallest_known_infeasibility = 0, protect_actual_reduction_against_roundoff = False,
         l1_armijo_decrease_fraction = 1 \<rparr>
       \<lparr> infeasibility = 0, objective = scaled_objective 1, auxiliary = 0 \<rparr>
       \<lparr> infeasibility = 0, objective = scaled_objective 1, auxiliary = 0 \<rparr>
       \<lparr> infeasibility = 0, objective = predicted_objective_reduction 1 (- machine_epsilon) 0, auxiliary = 0 \<rparr>
       1)
   \<noteq> spec_l1_accept 1 1
       \<lparr> infeasibility = 0, objective = scaled_objective 1, auxiliary = 0 \<rparr>
       \<lparr> infeasibility = 0, objective = scaled_objective 1, auxiliary = 0 \<rparr>
       \<lparr> infeasibility = 0, objective = predicted_objective_reduction 1 (- machine_epsilon) 0, auxiliary = 0 \<rparr>
       1
   \<and> l1_accept (l1MeritFunction_is_iterate_acceptable
       \<lparr> smallest_known_infeasibility = 0, protect_actual_reduction_against_roundoff = True,
         l1_armijo_decrease_fraction = 1 \<rparr>
       \<lparr> infeasibility = 1, objective = scaled_objective 0, auxiliary = 0 \<rparr>
       \<lparr> infeasibility = 0, objective = scaled_objective 0, auxiliary = 0 \<rparr>
       \<lparr> infeasibility = 3 / 2, objective = scaled_objective 0, auxiliary = 0 \<rparr>
       1)
   \<noteq> spec_l1_accept 1 2
       \<lparr> infeasibility = 1, objective = scaled_objective 0, auxiliary = 0 \<rparr>
       \<lparr> infeasibility = 0, objective = scaled_objective 0, auxiliary = 0 \<rparr>
       \<lparr> infeasibility = 3 / 2, objective = scaled_objective 0, auxiliary = 0 \<rparr>
       1"
  by (simp add: l1_accept_unfold armijo_sufficient_decrease_def compute_merit_actual_reduction_def
        l1_merit_value_def spec_l1_accept_def spec_l1_merit_def machine_epsilon_def
        scaled_objective_def predicted_objective_reduction_def Let_def)

section \<open>Theorems: active-set dual displacements\<close>







section \<open>Theorems: least-square multipliers\<close>

lemma foldl_store_at_length:
  "length (foldl (store_at off sol) v js) = length v"
  by (induction js arbitrary: v) (simp_all add: store_at_def)

lemma store_at_nth:
  "j < length v \<Longrightarrow> store_at off sol v j ! k = (if k = j then sol ! (off + j) else v ! k)"
  by (simp add: store_at_def nth_list_update)

lemma foldl_store_at_nth:
  "m \<le> length v \<Longrightarrow>
   foldl (store_at off sol) v [0..<m] ! j = (if j < m then sol ! (off + j) else v ! j)"
proof (induction m arbitrary: j)
  case 0
  then show ?case by simp
next
  case (Suc m)
  let ?w = "foldl (store_at off sol) v [0..<m]"
  have len: "m < length ?w"
    using Suc.prems by (simp add: foldl_store_at_length)
  have ih: "?w ! k = (if k < m then sol ! (off + k) else v ! k)" for k
    using Suc.IH [of k] Suc.prems by simp
  have "foldl (store_at off sol) v [0..<Suc m] ! j = store_at off sol ?w m ! j"
    by simp
  also have "\<dots> = (if j = m then sol ! (off + m) else ?w ! j)"
    using len by (rule store_at_nth)
  also have "\<dots> = (if j < Suc m then sol ! (off + j) else v ! j)"
    by (auto simp: ih less_Suc_eq)
  finally show ?case .
qed

lemma norm_inf_range_le_iff:
  "norm_inf_range v a b \<le> c \<longleftrightarrow> 0 \<le> c \<and> (\<forall>i. a \<le> i \<and> i < b \<longrightarrow> \<bar>v ! i\<bar> \<le> c)"
proof (induction b)
  case 0
  then show ?case by (simp add: norm_inf_range_def)
next
  case (Suc b)
  show ?case
  proof (cases "a \<le> b")
    case True
    then have "norm_inf_range v a (Suc b) = max (norm_inf_range v a b) \<bar>v ! b\<bar>"
      by (simp add: norm_inf_range_def)
    then show ?thesis
      using Suc.IH True by (auto simp: less_Suc_eq)
  next
    case False
    then have "norm_inf_range v a (Suc b) = 0"
      by (simp add: norm_inf_range_def)
    then show ?thesis using False by auto
  qed
qed

text \<open>
  C9 (as the code has it). For a constrained initial iterate the constraint multipliers are
  estimated by one solve of the least-square system. The estimate is too large exactly when
  the cap is negative or some entry of the multiplier block of the solution exceeds it in
  absolute value; then the call writes nothing and the multipliers keep the values they had
  on entry (zero only if they were zero). Otherwise entry \<open>j\<close> of the multipliers becomes
  entry \<open>number_variables + j\<close> of the solution.
\<close>

theorem least_square_multipliers_capped:
  assumes "number_constraints model \<le> length (constraints (multipliers it))"
    and "j < number_constraints model"
  shows "(norm_inf_range (linear_solver (least_square_matrix model it) (least_square_rhs model it rhs))
            (number_variables model) (number_variables model + number_constraints model) \<le> cap
          \<longrightarrow> constraints (multipliers (generate_initial_constraint_multipliers model linear_solver rhs it cap)) ! j
              = linear_solver (least_square_matrix model it) (least_square_rhs model it rhs)
                  ! (number_variables model + j))
       \<and> (cap < norm_inf_range (linear_solver (least_square_matrix model it) (least_square_rhs model it rhs))
            (number_variables model) (number_variables model + number_constraints model)
          \<longrightarrow> constraints (multipliers (generate_initial_constraint_multipliers model linear_solver rhs it cap))
              = constraints (multipliers it))
       \<and> (cap < norm_inf_range (linear_solver (least_square_matrix model it) (least_square_rhs model it rhs))
            (number_variables model) (number_variables model + number_constraints model)
          \<longleftrightarrow> cap < 0 \<or> (\<exists>i. number_variables model \<le> i
                \<and> i < number_variables model + number_constraints model
                \<and> cap < \<bar>linear_solver (least_square_matrix model it) (least_square_rhs model it rhs) ! i\<bar>))"
proof -
  let ?sol = "linear_solver (least_square_matrix model it) (least_square_rhs model it rhs)"
  let ?norm = "norm_inf_range ?sol (number_variables model) (number_variables model + number_constraints model)"
  have pos: "0 < number_constraints model"
    using assms(2) by simp
  have keep: "?norm \<le> cap \<Longrightarrow>
      constraints (multipliers (generate_initial_constraint_multipliers model linear_solver rhs it cap)) ! j
      = ?sol ! (number_variables model + j)"
    using assms pos
    by (simp add: generate_initial_constraint_multipliers_def compute_least_square_multipliers_def
          Let_def foldl_store_at_nth)
  have discard: "cap < ?norm \<Longrightarrow>
      constraints (multipliers (generate_initial_constraint_multipliers model linear_solver rhs it cap))
      = constraints (multipliers it)"
    using pos
    by (simp add: generate_initial_constraint_multipliers_def compute_least_square_multipliers_def Let_def)
  have exceeds: "cap < ?norm \<longleftrightarrow> cap < 0 \<or> (\<exists>i. number_variables model \<le> i
        \<and> i < number_variables model + number_constraints model \<and> cap < \<bar>?sol ! i\<bar>)"
    using norm_inf_range_le_iff [of ?sol "number_variables model"
        "number_variables model + number_constraints model" cap]
    by (auto simp: not_le [symmetric])
  show ?thesis
    using keep discard exceeds by blast
qed

theorem least_square_multipliers_capped_witness:
  "number_constraints example_model \<le> length (constraints (multipliers (example_initial_iterate 5)))
   \<and> (0::nat) < number_constraints example_model
   \<and> norm_inf_range (example_linear_solver (least_square_matrix example_model (example_initial_iterate 5))
          (least_square_rhs example_model (example_initial_iterate 5) [0, 0]))
        (number_variables example_model)
        (number_variables example_model + number_constraints example_model) = 2
   \<and> constraints (multipliers (generate_initial_constraint_multipliers example_model
          example_linear_solver [0, 0] (example_initial_iterate 5) 10)) ! 0 = 2
   \<and> constraints (multipliers (generate_initial_constraint_multipliers example_model
          example_linear_solver [0, 0] (example_initial_iterate 5) 1)) = [5]"
proof -
  let ?sol = "example_linear_solver (least_square_matrix example_model (example_initial_iterate 5))
          (least_square_rhs example_model (example_initial_iterate 5) [0, 0])"
  have sol: "?sol = [0, 2]"
    by (simp add: example_linear_solver_def least_square_matrix_def
          least_square_rhs_def example_model_def example_initial_iterate_def Let_def)
  have nv: "number_variables example_model = Suc 0" "number_constraints example_model = Suc 0"
    by (simp_all add: example_model_def)
  have n: "norm_inf_range ?sol (number_variables example_model)
        (number_variables example_model + number_constraints example_model) = 2"
    unfolding sol nv by (simp add: norm_inf_range_def)
  have e: "?sol ! (number_variables example_model + 0) = 2"
    unfolding sol nv by simp
  have h1: "number_constraints example_model \<le> length (constraints (multipliers (example_initial_iterate 5)))"
    by (simp add: example_model_def example_initial_iterate_def)
  have h2: "(0::nat) < number_constraints example_model"
    by (simp add: example_model_def)
  note keep = least_square_multipliers_capped [OF h1 h2, of example_linear_solver "[0, 0]" 10, THEN conjunct1]
  note discard = least_square_multipliers_capped [OF h1 h2, of example_linear_solver "[0, 0]" 1,
      THEN conjunct2, THEN conjunct1]
  have k: "constraints (multipliers (generate_initial_constraint_multipliers example_model
          example_linear_solver [0, 0] (example_initial_iterate 5) 10)) ! 0 = 2"
    using keep unfolding n e by simp
  have d: "constraints (multipliers (generate_initial_constraint_multipliers example_model
          example_linear_solver [0, 0] (example_initial_iterate 5) 1)) = [5]"
    using discard unfolding n by (simp add: example_initial_iterate_def)
  show ?thesis using n h1 h2 k d by simp
qed

text \<open>
  C9 as stated fails when the initial iterate carries a nonzero dual estimate: with the
  multiplier \<open>5\<close> on entry, a least-square estimate of \<open>2\<close> and a cap of \<open>1\<close>, the estimate is
  discarded and the multiplier stays \<open>5\<close>, not zero.
\<close>

theorem least_square_multipliers_counterexample:
  "constraints (multipliers (generate_initial_constraint_multipliers example_model
       example_linear_solver [0, 0] (example_initial_iterate 5) 1)) \<noteq> [0]"
  by (simp add: generate_initial_constraint_multipliers_def compute_least_square_multipliers_def
        norm_inf_range_def example_linear_solver_def least_square_matrix_def
        least_square_rhs_def example_model_def example_initial_iterate_def Let_def
        eval_nat_numeral)

section \<open>Theorems: the fraction-to-boundary rule\<close>

lemma foldl_min_step:
  assumes "finite A" "A \<noteq> {}"
    and "\<And>a i. i \<in> set xs \<Longrightarrow> step a i = (if P i then min a (f i) else a)"
  shows "foldl step (Min A) xs = Min (A \<union> set (map f (filter P xs)))"
  using assms
proof (induction xs arbitrary: A)
  case Nil
  then show ?case by simp
next
  case (Cons x xs)
  show ?case
  proof (cases "P x")
    case True
    have "step (Min A) x = Min (insert (f x) A)"
      using Cons.prems True by (simp add: min.commute)
    moreover have "foldl step (Min (insert (f x) A)) xs
        = Min (insert (f x) A \<union> set (map f (filter P xs)))"
      using Cons.prems by (intro Cons.IH) auto
    ultimately show ?thesis using True by simp
  next
    case False
    have "step (Min A) x = Min A"
      using Cons.prems False by simp
    moreover have "foldl step (Min A) xs = Min (A \<union> set (map f (filter P xs)))"
      using Cons.prems by (intro Cons.IH) auto
    ultimately show ?thesis using False by simp
  qed
qed

lemma primal_trial_positive_lower:
  fixes tau x xl d :: real
  assumes "0 < tau" "xl < x" "d < 0"
  shows "0 < - tau * (x - xl) / d"
proof -
  have "0 < tau * (x - xl)" using assms by simp
  then have "tau * (x - xl) / d < 0" using assms(3) by (simp add: divide_pos_neg)
  then show ?thesis by simp
qed

lemma primal_trial_positive_upper:
  fixes tau x xu d :: real
  assumes "0 < tau" "x < xu" "0 < d"
  shows "0 < - tau * (x - xu) / d"
proof -
  have "tau * (x - xu) < 0" using assms by (simp add: mult_pos_neg)
  then have "tau * (x - xu) / d < 0" using assms(3) by (simp add: divide_neg_pos)
  then show ?thesis by simp
qed

lemma primal_length_loops_eq:
  assumes tau: "0 < tau"
    and lower: "\<forall>i \<in> set (lower_bounded_variables problem). variable_lower_bound problem i < primals it ! i"
    and upper: "\<forall>i \<in> set (upper_bounded_variables problem). primals it ! i < variable_upper_bound problem i"
  shows "primal_length_loops problem it dx tau = spec_primal_fraction problem it dx tau"
proof -
  let ?fl = "\<lambda>i. - tau * (primals it ! i - variable_lower_bound problem i) / dx ! i"
  let ?fu = "\<lambda>i. - tau * (primals it ! i - variable_upper_bound problem i) / dx ! i"
  let ?L = "set (map ?fl (filter (\<lambda>i. dx ! i < 0) (lower_bounded_variables problem)))"
  let ?U = "set (map ?fu (filter (\<lambda>i. 0 < dx ! i) (upper_bounded_variables problem)))"
  have stepl: "primal_lower_step problem it dx tau a i = (if dx ! i < 0 then min a (?fl i) else a)"
    if "i \<in> set (lower_bounded_variables problem)" for a i
    using that lower tau primal_trial_positive_lower [of tau "variable_lower_bound problem i" "primals it ! i" "dx ! i"]
    by (simp add: primal_lower_step_def Let_def)
  have stepu: "primal_upper_step problem it dx tau a i = (if 0 < dx ! i then min a (?fu i) else a)"
    if "i \<in> set (upper_bounded_variables problem)" for a i
    using that upper tau primal_trial_positive_upper [of tau "primals it ! i" "variable_upper_bound problem i" "dx ! i"]
    by (simp add: primal_upper_step_def Let_def)
  have one: "(1::real) = Min {1}" by simp
  have "foldl (primal_lower_step problem it dx tau) 1 (lower_bounded_variables problem)
        = Min ({1} \<union> ?L)"
    by (subst one, rule foldl_min_step) (simp_all add: stepl)
  moreover have "foldl (primal_upper_step problem it dx tau) (Min ({1} \<union> ?L)) (upper_bounded_variables problem)
        = Min (({1} \<union> ?L) \<union> ?U)"
    by (rule foldl_min_step) (simp_all add: stepu)
  ultimately show ?thesis
    by (simp add: primal_length_loops_def spec_primal_fraction_def Un_assoc)
qed

lemma dual_length_loops_eq:
  assumes tau: "0 < tau"
    and lower: "\<forall>i \<in> set (lower_bounded_variables problem). 0 < lower_bounds (multipliers it) ! i"
    and upper: "\<forall>i \<in> set (upper_bounded_variables problem). upper_bounds (multipliers it) ! i < 0"
  shows "dual_length_loops problem it dzL dzU tau = spec_dual_fraction problem it dzL dzU tau"
proof -
  let ?fl = "\<lambda>i. - tau * lower_bounds (multipliers it) ! i / dzL ! i"
  let ?fu = "\<lambda>i. - tau * upper_bounds (multipliers it) ! i / dzU ! i"
  let ?L = "set (map ?fl (filter (\<lambda>i. dzL ! i < 0) (lower_bounded_variables problem)))"
  let ?U = "set (map ?fu (filter (\<lambda>i. 0 < dzU ! i) (upper_bounded_variables problem)))"
  have stepl: "dual_lower_step it dzL tau a i = (if dzL ! i < 0 then min a (?fl i) else a)"
    if "i \<in> set (lower_bounded_variables problem)" for a i
    using that lower tau primal_trial_positive_lower [of tau 0 "lower_bounds (multipliers it) ! i" "dzL ! i"]
    by (simp add: dual_lower_step_def Let_def)
  have stepu: "dual_upper_step it dzU tau a i = (if 0 < dzU ! i then min a (?fu i) else a)"
    if "i \<in> set (upper_bounded_variables problem)" for a i
    using that upper tau primal_trial_positive_upper [of tau "upper_bounds (multipliers it) ! i" 0 "dzU ! i"]
    by (simp add: dual_upper_step_def Let_def)
  have one: "(1::real) = Min {1}" by simp
  have "foldl (dual_lower_step it dzL tau) 1 (lower_bounded_variables problem) = Min ({1} \<union> ?L)"
    by (subst one, rule foldl_min_step) (simp_all add: stepl)
  moreover have "foldl (dual_upper_step it dzU tau) (Min ({1} \<union> ?L)) (upper_bounded_variables problem)
        = Min (({1} \<union> ?L) \<union> ?U)"
    by (rule foldl_min_step) (simp_all add: stepu)
  ultimately show ?thesis
    by (simp add: dual_length_loops_def spec_dual_fraction_def Un_assoc)
qed

lemma spec_primal_fraction_bounds:
  assumes tau: "0 < tau"
    and lower: "\<forall>i \<in> set (lower_bounded_variables problem). variable_lower_bound problem i < primals it ! i"
    and upper: "\<forall>i \<in> set (upper_bounded_variables problem). primals it ! i < variable_upper_bound problem i"
  shows "0 < spec_primal_fraction problem it dx tau \<and> spec_primal_fraction problem it dx tau \<le> 1"
proof -
  define S where "S = set (1 #
       map (\<lambda>i. - tau * (primals it ! i - variable_lower_bound problem i) / dx ! i)
           (filter (\<lambda>i. dx ! i < 0) (lower_bounded_variables problem))
       @ map (\<lambda>i. - tau * (primals it ! i - variable_upper_bound problem i) / dx ! i)
           (filter (\<lambda>i. 0 < dx ! i) (upper_bounded_variables problem)))"
  have fin: "finite S" and ne: "S \<noteq> {}" and one: "1 \<in> S"
    by (simp_all add: S_def)
  have l: "0 < - tau * (primals it ! i - variable_lower_bound problem i) / dx ! i"
    if "i \<in> set (lower_bounded_variables problem)" "dx ! i < 0" for i
    using that lower tau
      primal_trial_positive_lower [of tau "variable_lower_bound problem i" "primals it ! i" "dx ! i"]
    by simp
  have u: "0 < - tau * (primals it ! i - variable_upper_bound problem i) / dx ! i"
    if "i \<in> set (upper_bounded_variables problem)" "0 < dx ! i" for i
    using that upper tau
      primal_trial_positive_upper [of tau "primals it ! i" "variable_upper_bound problem i" "dx ! i"]
    by simp
  have pos: "0 < y" if "y \<in> S" for y
    using that l u unfolding S_def by auto
  have "0 < Min S"
    using Min_gr_iff [OF fin ne, of 0] pos by blast
  moreover have "Min S \<le> 1"
    using Min_le [OF fin one] .
  moreover have "spec_primal_fraction problem it dx tau = Min S"
    unfolding spec_primal_fraction_def S_def ..
  ultimately show ?thesis by simp
qed

lemma spec_dual_fraction_bounds:
  assumes tau: "0 < tau"
    and lower: "\<forall>i \<in> set (lower_bounded_variables problem). 0 < lower_bounds (multipliers it) ! i"
    and upper: "\<forall>i \<in> set (upper_bounded_variables problem). upper_bounds (multipliers it) ! i < 0"
  shows "0 < spec_dual_fraction problem it dzL dzU tau \<and> spec_dual_fraction problem it dzL dzU tau \<le> 1"
proof -
  define S where "S = set (1 #
       map (\<lambda>i. - tau * lower_bounds (multipliers it) ! i / dzL ! i)
           (filter (\<lambda>i. dzL ! i < 0) (lower_bounded_variables problem))
       @ map (\<lambda>i. - tau * upper_bounds (multipliers it) ! i / dzU ! i)
           (filter (\<lambda>i. 0 < dzU ! i) (upper_bounded_variables problem)))"
  have fin: "finite S" and ne: "S \<noteq> {}" and one: "1 \<in> S"
    by (simp_all add: S_def)
  have l: "0 < - tau * lower_bounds (multipliers it) ! i / dzL ! i"
    if "i \<in> set (lower_bounded_variables problem)" "dzL ! i < 0" for i
    using that lower tau primal_trial_positive_lower [of tau 0 "lower_bounds (multipliers it) ! i" "dzL ! i"]
    by simp
  have u: "0 < - tau * upper_bounds (multipliers it) ! i / dzU ! i"
    if "i \<in> set (upper_bounded_variables problem)" "0 < dzU ! i" for i
    using that upper tau primal_trial_positive_upper [of tau "upper_bounds (multipliers it) ! i" 0 "dzU ! i"]
    by simp
  have pos: "0 < y" if "y \<in> S" for y
    using that l u unfolding S_def by auto
  have "0 < Min S"
    using Min_gr_iff [OF fin ne, of 0] pos by blast
  moreover have "Min S \<le> 1"
    using Min_le [OF fin one] .
  moreover have "spec_dual_fraction problem it dzL dzU tau = Min S"
    unfolding spec_dual_fraction_def S_def ..
  ultimately show ?thesis by simp
qed

lemma lower_delta_z_loop_returns:
  assumes "\<forall>i \<in> set js. variable_lower_bound problem i < primals it ! i"
  shows "\<exists>r. lower_delta_z_loop problem it sol mu js dz = Inr r"
  using assms by (induction js arbitrary: dz) (auto simp: Let_def)

lemma upper_delta_z_loop_returns:
  assumes "\<forall>i \<in> set js. primals it ! i < variable_upper_bound problem i"
  shows "\<exists>r. upper_delta_z_loop problem it sol mu js dz = Inr r"
  using assms by (induction js arbitrary: dz) (auto simp: Let_def)

lemma compute_bound_dual_direction_returns:
  assumes "\<forall>i \<in> set (lower_bounded_variables problem). variable_lower_bound problem i < primals it ! i"
    and "\<forall>i \<in> set (upper_bounded_variables problem). primals it ! i < variable_upper_bound problem i"
  shows "\<exists>dzL dzU. compute_bound_dual_direction problem it sol mu k = Inr (dzL, dzU)"
proof -
  obtain l where l: "lower_delta_z_loop problem it sol mu (lower_bounded_variables problem)
      (replicate k 0) = Inr l"
    using lower_delta_z_loop_returns [OF assms(1)] by blast
  obtain u where u: "upper_delta_z_loop problem it sol mu (upper_bounded_variables problem)
      (replicate k 0) = Inr u"
    using upper_delta_z_loop_returns [OF assms(2)] by blast
  show ?thesis
    by (simp add: compute_bound_dual_direction_def l u)
qed

lemma flip_duals_nth:
  "i < n \<Longrightarrow> n \<le> length sol \<Longrightarrow> flip_duals n sol ! i = sol ! i"
  by (simp add: flip_duals_def nth_append)

lemma spec_primal_fraction_cong:
  assumes "\<forall>i \<in> set (lower_bounded_variables problem). d1 ! i = d2 ! i"
    and "\<forall>i \<in> set (upper_bounded_variables problem). d1 ! i = d2 ! i"
  shows "spec_primal_fraction problem it d1 tau = spec_primal_fraction problem it d2 tau"
proof -
  have "map (\<lambda>i. - tau * (primals it ! i - variable_lower_bound problem i) / d1 ! i)
           (filter (\<lambda>i. d1 ! i < 0) (lower_bounded_variables problem))
      = map (\<lambda>i. - tau * (primals it ! i - variable_lower_bound problem i) / d2 ! i)
           (filter (\<lambda>i. d2 ! i < 0) (lower_bounded_variables problem))"
    using assms(1) by (intro map_cong filter_cong) auto
  moreover have "map (\<lambda>i. - tau * (primals it ! i - variable_upper_bound problem i) / d1 ! i)
           (filter (\<lambda>i. 0 < d1 ! i) (upper_bounded_variables problem))
      = map (\<lambda>i. - tau * (primals it ! i - variable_upper_bound problem i) / d2 ! i)
           (filter (\<lambda>i. 0 < d2 ! i) (upper_bounded_variables problem))"
    using assms(2) by (intro map_cong filter_cong) auto
  ultimately show ?thesis
    by (simp add: spec_primal_fraction_def)
qed

lemma lower_delta_z_loop_cong:
  assumes "\<forall>i \<in> set js. s1 ! i = s2 ! i"
  shows "lower_delta_z_loop problem it s1 mu js dz = lower_delta_z_loop problem it s2 mu js dz"
  using assms by (induction js arbitrary: dz) (simp_all add: Let_def)

lemma upper_delta_z_loop_cong:
  assumes "\<forall>i \<in> set js. s1 ! i = s2 ! i"
  shows "upper_delta_z_loop problem it s1 mu js dz = upper_delta_z_loop problem it s2 mu js dz"
  using assms by (induction js arbitrary: dz) (simp_all add: Let_def)

lemma compute_bound_dual_direction_cong:
  assumes "\<forall>i \<in> set (lower_bounded_variables problem). s1 ! i = s2 ! i"
    and "\<forall>i \<in> set (upper_bounded_variables problem). s1 ! i = s2 ! i"
  shows "compute_bound_dual_direction problem it s1 mu k = compute_bound_dual_direction problem it s2 mu k"
  unfolding compute_bound_dual_direction_def
  using lower_delta_z_loop_cong [OF assms(1), of problem it mu]
    upper_delta_z_loop_cong [OF assms(2), of problem it mu]
  by (simp split: sum.splits)

text \<open>
  C2. For an iterate strictly inside its finite bounds, with \<open>zL > 0\<close> on the lower-bounded and
  \<open>zU < 0\<close> on the upper-bounded indices, and \<open>\<tau> = max(\<tau>_min, 1 - \<mu>)\<close> with \<open>\<tau>_min\<close> in
  \<open>(0, 1)\<close>: assembling the primal-dual direction fires no assertion; the primal step length
  is the minimum, capped at one, of \<open>-\<tau>(x - xL)/\<Delta>x\<close> over the lower-bounded coordinates with
  \<open>\<Delta>x < 0\<close> and of \<open>-\<tau>(x - xU)/\<Delta>x\<close> over the upper-bounded ones with \<open>\<Delta>x > 0\<close>; the bound-dual
  step length is the same minimum over \<open>zL, \<Delta>zL\<close> and \<open>zU, \<Delta>zU\<close>; and both lie in \<open>(0, 1]\<close>.
\<close>

theorem fraction_to_boundary_in_unit_interval:
  assumes "0 < tau_min parameters" and "tau_min parameters < 1"
    and "problem_number_variables problem \<le> length solution"
    and "\<forall>i \<in> set (lower_bounded_variables problem).
           i < problem_number_variables problem
           \<and> variable_lower_bound problem i < primals it ! i
           \<and> 0 < lower_bounds (multipliers it) ! i"
    and "\<forall>i \<in> set (upper_bounded_variables problem).
           i < problem_number_variables problem
           \<and> primals it ! i < variable_upper_bound problem i
           \<and> upper_bounds (multipliers it) ! i < 0"
  shows "\<exists>d dzL dzU.
      assemble_primal_dual_direction parameters mu k problem it solution = Inr d
    \<and> compute_bound_dual_direction problem it solution mu k = Inr (dzL, dzU)
    \<and> primal_dual_step_length d
        = spec_primal_fraction problem it solution (max (tau_min parameters) (1 - mu))
    \<and> bound_dual_step_length d
        = spec_dual_fraction problem it dzL dzU (max (tau_min parameters) (1 - mu))
    \<and> 0 < primal_dual_step_length d \<and> primal_dual_step_length d \<le> 1
    \<and> 0 < bound_dual_step_length d \<and> bound_dual_step_length d \<le> 1"
proof -
  define tau where "tau = max (tau_min parameters) (1 - mu)"
  define flipped where "flipped = flip_duals (problem_number_variables problem) solution"
  have tau: "0 < tau"
    using assms(1) by (simp add: tau_def)
  have xl: "\<forall>i \<in> set (lower_bounded_variables problem). variable_lower_bound problem i < primals it ! i"
    and zl: "\<forall>i \<in> set (lower_bounded_variables problem). 0 < lower_bounds (multipliers it) ! i"
    and fl: "\<forall>i \<in> set (lower_bounded_variables problem). flipped ! i = solution ! i"
    using assms(3,4) by (simp_all add: flipped_def flip_duals_nth)
  have xu: "\<forall>i \<in> set (upper_bounded_variables problem). primals it ! i < variable_upper_bound problem i"
    and zu: "\<forall>i \<in> set (upper_bounded_variables problem). upper_bounds (multipliers it) ! i < 0"
    and fu: "\<forall>i \<in> set (upper_bounded_variables problem). flipped ! i = solution ! i"
    using assms(3,5) by (simp_all add: flipped_def flip_duals_nth)
  have p_eq: "primal_length_loops problem it flipped tau = spec_primal_fraction problem it solution tau"
    using primal_length_loops_eq [OF tau xl xu, of flipped]
      spec_primal_fraction_cong [OF fl fu, of it tau] by simp
  have p_in: "0 < spec_primal_fraction problem it solution tau
      \<and> spec_primal_fraction problem it solution tau \<le> 1"
    by (rule spec_primal_fraction_bounds [OF tau xl xu])
  have p: "primal_fraction_to_boundary problem it flipped tau
      = Inr (spec_primal_fraction problem it solution tau)"
    using p_eq p_in by (simp add: primal_fraction_to_boundary_def)
  obtain dzL dzU where dz: "compute_bound_dual_direction problem it solution mu k = Inr (dzL, dzU)"
    using compute_bound_dual_direction_returns [OF xl xu] by blast
  have dz': "compute_bound_dual_direction problem it flipped mu k = Inr (dzL, dzU)"
    using compute_bound_dual_direction_cong [OF fl fu, of it mu k] dz by simp
  have d_eq: "dual_length_loops problem it dzL dzU tau = spec_dual_fraction problem it dzL dzU tau"
    by (rule dual_length_loops_eq [OF tau zl zu])
  have d_in: "0 < spec_dual_fraction problem it dzL dzU tau
      \<and> spec_dual_fraction problem it dzL dzU tau \<le> 1"
    by (rule spec_dual_fraction_bounds [OF tau zl zu])
  have d: "dual_fraction_to_boundary problem it dzL dzU tau
      = Inr (spec_dual_fraction problem it dzL dzU tau)"
    using d_eq d_in by (simp add: dual_fraction_to_boundary_def)
  have "\<exists>d. assemble_primal_dual_direction parameters mu k problem it solution = Inr d
      \<and> primal_dual_step_length d = spec_primal_fraction problem it solution tau
      \<and> bound_dual_step_length d = spec_dual_fraction problem it dzL dzU tau"
    unfolding assemble_primal_dual_direction_def Let_def
    using p dz' d by (simp add: flipped_def [symmetric] tau_def [symmetric])
  then show ?thesis
    using dz p_in d_in unfolding tau_def by metis
qed

theorem fraction_to_boundary_in_unit_interval_witness:
  "0 < tau_min example_parameters \<and> tau_min example_parameters < 1
   \<and> lower_bounded_variables example_barrier_problem = [0]
   \<and> upper_bounded_variables example_barrier_problem = [1]
   \<and> variable_lower_bound example_barrier_problem 0 < primals example_barrier_iterate ! 0
   \<and> 0 < lower_bounds (multipliers example_barrier_iterate) ! 0
   \<and> primals example_barrier_iterate ! 1 < variable_upper_bound example_barrier_problem 1
   \<and> upper_bounds (multipliers example_barrier_iterate) ! 1 < 0
   \<and> (\<exists>d. assemble_primal_dual_direction example_parameters (1 / 10) 2 example_barrier_problem
              example_barrier_iterate [2, 3, 5] = Inr d
          \<and> primal_dual_step_length d = 33 / 100 \<and> bound_dual_step_length d = 99 / 290
          \<and> 0 < primal_dual_step_length d \<and> primal_dual_step_length d \<le> 1
          \<and> 0 < bound_dual_step_length d \<and> bound_dual_step_length d \<le> 1)"
proof -
  have h1: "0 < tau_min example_parameters" and h2: "tau_min example_parameters < 1"
    by (simp_all add: example_parameters_def)
  have h3: "problem_number_variables example_barrier_problem \<le> length [2, 3, 5 :: real]"
    by (simp add: example_barrier_problem_def)
  have h4: "\<forall>i \<in> set (lower_bounded_variables example_barrier_problem).
           i < problem_number_variables example_barrier_problem
           \<and> variable_lower_bound example_barrier_problem i < primals example_barrier_iterate ! i
           \<and> 0 < lower_bounds (multipliers example_barrier_iterate) ! i"
    by (simp add: example_barrier_problem_def example_barrier_iterate_def
          example_variable_lower_bound_def)
  have h5: "\<forall>i \<in> set (upper_bounded_variables example_barrier_problem).
           i < problem_number_variables example_barrier_problem
           \<and> primals example_barrier_iterate ! i < variable_upper_bound example_barrier_problem i
           \<and> upper_bounds (multipliers example_barrier_iterate) ! i < 0"
    by (simp add: example_barrier_problem_def example_barrier_iterate_def
          example_variable_upper_bound_def)
  obtain d dzL dzU where
    d: "assemble_primal_dual_direction example_parameters (1 / 10) 2 example_barrier_problem
          example_barrier_iterate [2, 3, 5] = Inr d"
    and in01: "0 < primal_dual_step_length d" "primal_dual_step_length d \<le> 1"
      "0 < bound_dual_step_length d" "bound_dual_step_length d \<le> 1"
    using fraction_to_boundary_in_unit_interval [OF h1 h2 h3 h4 h5, of "1 / 10" 2] by blast
  have v: "assemble_primal_dual_direction example_parameters (1 / 10) 2 example_barrier_problem
          example_barrier_iterate [2, 3, 5]
        = Inr \<lparr> barrier_primals = [2, 3],
                barrier_multipliers = \<lparr> constraints = [-5], lower_bounds = [- (29 / 10), 0],
                                        upper_bounds = [0, - (21 / 10)] \<rparr>,
                primal_dual_step_length = 33 / 100, bound_dual_step_length = 99 / 290 \<rparr>"
    by (simp add: assemble_primal_dual_direction_def flip_duals_def
          primal_fraction_to_boundary_def primal_length_loops_def primal_lower_step_def
          primal_upper_step_def compute_bound_dual_direction_def dual_fraction_to_boundary_def
          dual_length_loops_def dual_lower_step_def dual_upper_step_def
          example_parameters_def example_barrier_problem_def example_barrier_iterate_def
          example_variable_lower_bound_def example_variable_upper_bound_def
          example_initial_iterate_def Let_def eval_nat_numeral)
  have "Inr d = (Inr \<lparr> barrier_primals = [2, 3],
                barrier_multipliers = \<lparr> constraints = [-5], lower_bounds = [- (29 / 10), 0],
                                        upper_bounds = [0, - (21 / 10)] \<rparr>,
                primal_dual_step_length = 33 / 100, bound_dual_step_length = 99 / 290 \<rparr>
              :: assertion_failure + BarrierDirection)"
    using d v by (rule trans [OF sym])
  then have "primal_dual_step_length d = 33 / 100 \<and> bound_dual_step_length d = 99 / 290"
    by auto
  moreover have "lower_bounded_variables example_barrier_problem = [0]"
    and "upper_bounded_variables example_barrier_problem = [1]"
    by (simp_all add: example_barrier_problem_def)
  ultimately show ?thesis
    using h1 h2 h4 h5 d in01 by auto
qed

section \<open>Theorems: entering and leaving the feasibility phase\<close>

lemma solve_barrier_update_previous:
  "previous_barrier_parameter (solve_barrier_update upd s call) = previous_barrier_parameter s"
  by (cases call)
     (simp add: solve_barrier_update_def update_barrier_parameter_def Let_def split: prod.splits)

lemma foldl_solve_barrier_update_previous:
  "previous_barrier_parameter (foldl (solve_barrier_update upd) s calls) = previous_barrier_parameter s"
  by (induction calls arbitrary: s) (simp_all add: solve_barrier_update_previous)

lemma subproblem_solve_in_feasibility:
  "solving_feasibility_problem s \<Longrightarrow> subproblem_solve_barrier_update upd s it = s"
  by (simp add: subproblem_solve_barrier_update_def)

lemma foldl_subproblem_solve_in_feasibility:
  "solving_feasibility_problem s \<Longrightarrow> foldl (subproblem_solve_barrier_update upd) s its = s"
  by (induction its) (simp_all add: subproblem_solve_in_feasibility)

text \<open>
  C3 (as the code has it). In \<^verbatim>\<open>PrimalDualInteriorPointMethod\<close>, entering the feasibility
  phase saves the current \<open>\<mu>\<close>, sets \<open>\<mu>\<close> to the larger of \<open>\<mu>\<close> and the iterate's primal
  feasibility residual, and raises \<^verbatim>\<open>first_feasibility_iteration\<close>; the next \<^verbatim>\<open>solve\<close> only
  clears that flag, the one after it runs the barrier update on the feasibility residuals;
  leaving the phase, after any number of solves, puts \<open>\<mu>\<close> back to its value at entry. In the
  earlier \<^verbatim>\<open>PrimalDualInteriorPointSubproblem\<close>, entering saves \<open>\<mu>\<close> and sets it to the larger
  of \<open>\<mu>\<close> and the infinity norm of the stored constraint values; every \<^verbatim>\<open>solve\<close> of the phase
  leaves the barrier members untouched; leaving restores the saved \<open>\<mu>\<close>.
\<close>

theorem feasibility_phase_barrier_parameter:
  "previous_barrier_parameter (initialize_feasibility_problem s it) = barrier_parameter s
   \<and> barrier_parameter (initialize_feasibility_problem s it)
       = max (barrier_parameter s) (primal_feasibility it)
   \<and> first_feasibility_iteration (initialize_feasibility_problem s it)
   \<and> solve_barrier_update upd (initialize_feasibility_problem s it) (it1, m1)
       = (initialize_feasibility_problem s it)\<lparr> first_feasibility_iteration := False \<rparr>
   \<and> solve_barrier_update upd
         (solve_barrier_update upd (initialize_feasibility_problem s it) (it1, m1)) (it2, m2)
       = update_barrier_parameter upd
           ((initialize_feasibility_problem s it)\<lparr> first_feasibility_iteration := False \<rparr>)
           it2 m2 (feasibility_residuals it2)
   \<and> barrier_parameter (exit_feasibility_problem
         (foldl (solve_barrier_update upd) (initialize_feasibility_problem s it) calls))
       = barrier_parameter s
   \<and> previous_barrier_parameter (subproblem_initialize_feasibility_problem t) = barrier_parameter t
   \<and> barrier_parameter (subproblem_initialize_feasibility_problem t)
       = max (barrier_parameter t)
           (norm_inf_range (subproblem_constraints t) 0 (length (subproblem_constraints t)))
   \<and> foldl (subproblem_solve_barrier_update upd') (subproblem_initialize_feasibility_problem t) its
       = subproblem_initialize_feasibility_problem t
   \<and> subproblem_exit_feasibility_problem
         (foldl (subproblem_solve_barrier_update upd') (subproblem_initialize_feasibility_problem t) its)
       = Inr ((subproblem_initialize_feasibility_problem t)\<lparr>
                barrier_parameter := barrier_parameter t, solving_feasibility_problem := False \<rparr>)"
proof -
  have first: "solve_barrier_update upd (initialize_feasibility_problem s it) (it1, m1)
       = (initialize_feasibility_problem s it)\<lparr> first_feasibility_iteration := False \<rparr>"
    by (simp add: solve_barrier_update_def initialize_feasibility_problem_def)
  have second: "solve_barrier_update upd
         ((initialize_feasibility_problem s it)\<lparr> first_feasibility_iteration := False \<rparr>) (it2, m2)
       = update_barrier_parameter upd
           ((initialize_feasibility_problem s it)\<lparr> first_feasibility_iteration := False \<rparr>)
           it2 m2 (feasibility_residuals it2)"
    by (simp add: solve_barrier_update_def initialize_feasibility_problem_def)
  have restore: "barrier_parameter (exit_feasibility_problem
         (foldl (solve_barrier_update upd) (initialize_feasibility_problem s it) calls))
       = barrier_parameter s"
    by (simp add: exit_feasibility_problem_def foldl_solve_barrier_update_previous
          initialize_feasibility_problem_def)
  have sub: "foldl (subproblem_solve_barrier_update upd') (subproblem_initialize_feasibility_problem t) its
       = subproblem_initialize_feasibility_problem t"
    by (rule foldl_subproblem_solve_in_feasibility)
       (simp add: subproblem_initialize_feasibility_problem_def)
  have sub_exit: "subproblem_exit_feasibility_problem (subproblem_initialize_feasibility_problem t)
       = Inr ((subproblem_initialize_feasibility_problem t)\<lparr>
                barrier_parameter := barrier_parameter t, solving_feasibility_problem := False \<rparr>)"
    by (simp add: subproblem_exit_feasibility_problem_def subproblem_initialize_feasibility_problem_def)
  show ?thesis
    unfolding sub first second
    using restore sub_exit
    by (simp add: initialize_feasibility_problem_def subproblem_initialize_feasibility_problem_def)
qed

text \<open>
  C3 as stated fails in both generations. In \<^verbatim>\<open>PrimalDualInteriorPointMethod\<close> the new \<open>\<mu>\<close> is
  taken from the primal feasibility residual, not from the norm of \<open>c(x)\<close>: with \<open>\<mu> = 0.1\<close>,
  \<open>c(x) = 2\<close> and a residual of \<open>0.5\<close> it becomes \<open>0.5\<close>, not \<open>2\<close>. In
  \<^verbatim>\<open>PrimalDualInteriorPointSubproblem\<close> the barrier update is skipped on every solve of the
  phase, not once: the second solve after entry still does not apply an update rule that
  would halve \<open>\<mu>\<close>.
\<close>

theorem feasibility_phase_barrier_parameter_counterexample:
  "barrier_parameter (initialize_feasibility_problem example_method example_infeasible_iterate)
     \<noteq> max (barrier_parameter example_method)
           (norm_inf_range (constraints_eval (evaluations example_infeasible_iterate)) 0
              (length (constraints_eval (evaluations example_infeasible_iterate))))
   \<and> subproblem_solve_barrier_update halving_update
        (subproblem_solve_barrier_update halving_update
           (subproblem_initialize_feasibility_problem example_subproblem) example_infeasible_iterate)
        example_infeasible_iterate
     \<noteq> subproblem_update_barrier_parameter halving_update
        (subproblem_solve_barrier_update halving_update
           (subproblem_initialize_feasibility_problem example_subproblem) example_infeasible_iterate)
        example_infeasible_iterate"
  by (simp add: initialize_feasibility_problem_def subproblem_initialize_feasibility_problem_def
        subproblem_solve_barrier_update_def subproblem_update_barrier_parameter_def
        halving_update_def example_method_def example_subproblem_def
        example_infeasible_iterate_def example_initial_iterate_def norm_inf_range_def)

section \<open>Theorems: the filter method\<close>

text \<open>
  C4. Outside feasibility mode (\<open>\<sigma> \<noteq> 0\<close>), when the trial point is acceptable to the filter and
  acceptable with respect to the current iterate but the switching condition on the predicted
  merit reduction fails, the trial point is accepted, the scenario is "h-type", and the
  filter afterwards is the old filter with the current iterate's (infeasibility, merit) pair
  added; the rest of the strategy is unchanged.
\<close>

theorem filter_h_type_adds_current:
  assumes "sigma \<noteq> 0"
    and "acceptable ops (method_filter s) (infeasibility t) (unconstrained_merit_function t)"
    and "acceptable_wrt_current_iterate ops (method_filter s)
           (infeasibility c) (unconstrained_merit_function c)
           (infeasibility t) (unconstrained_merit_function t)"
    and "\<not> switching_condition (unconstrained_merit_function p) (infeasibility c)
             (delta s) (switching_infeasibility_exponent s)"
  shows "filter_accept (FletcherFilterMethod_is_iterate_acceptable ops s c t p sigma)
       \<and> filter_scenario (FletcherFilterMethod_is_iterate_acceptable ops s c t p sigma) = ''h-type''
       \<and> filter_status (FletcherFilterMethod_is_iterate_acceptable ops s c t p sigma)
           = ''accepted (h-type)''
       \<and> filter_strategy (FletcherFilterMethod_is_iterate_acceptable ops s c t p sigma)
           = s\<lparr> method_filter := add ops (method_filter s)
                   (infeasibility c) (unconstrained_merit_function c) \<rparr>"
  using assms
  by (simp add: FletcherFilterMethod_is_iterate_acceptable_def filter_verdict_def Let_def)

theorem filter_h_type_adds_current_witness:
  "(1::real) \<noteq> 0
   \<and> acceptable list_filter (method_filter example_filter_method)
        (infeasibility example_trial_progress) (unconstrained_merit_function example_trial_progress)
   \<and> acceptable_wrt_current_iterate list_filter (method_filter example_filter_method)
        (infeasibility example_current_progress) (unconstrained_merit_function example_current_progress)
        (infeasibility example_trial_progress) (unconstrained_merit_function example_trial_progress)
   \<and> \<not> switching_condition (unconstrained_merit_function example_predicted_reduction)
          (infeasibility example_current_progress) (delta example_filter_method)
          (switching_infeasibility_exponent example_filter_method)
   \<and> filter_accept (FletcherFilterMethod_is_iterate_acceptable list_filter example_filter_method
        example_current_progress example_trial_progress example_predicted_reduction 1)
   \<and> method_filter (filter_strategy (FletcherFilterMethod_is_iterate_acceptable list_filter
        example_filter_method example_current_progress example_trial_progress
        example_predicted_reduction 1)) = [(1, 10), (2, 5)]"
proof -
  have h1: "(1::real) \<noteq> 0" by simp
  have h2: "acceptable list_filter (method_filter example_filter_method)
        (infeasibility example_trial_progress) (unconstrained_merit_function example_trial_progress)"
    by (simp add: list_filter_def list_filter_acceptable_def entry_rejects_def
          example_filter_method_def example_trial_progress_def unconstrained_merit_function_def
          scaled_objective_def)
  have h3: "acceptable_wrt_current_iterate list_filter (method_filter example_filter_method)
        (infeasibility example_current_progress) (unconstrained_merit_function example_current_progress)
        (infeasibility example_trial_progress) (unconstrained_merit_function example_trial_progress)"
    by (simp add: list_filter_def list_filter_acceptable_wrt_current_iterate_def entry_rejects_def
          example_filter_method_def example_trial_progress_def example_current_progress_def
          unconstrained_merit_function_def scaled_objective_def)
  have h4: "\<not> switching_condition (unconstrained_merit_function example_predicted_reduction)
          (infeasibility example_current_progress) (delta example_filter_method)
          (switching_infeasibility_exponent example_filter_method)"
    by (simp add: switching_condition_def example_predicted_reduction_def
          example_current_progress_def example_filter_method_def unconstrained_merit_function_def
          predicted_objective_reduction_def)
  note r = filter_h_type_adds_current [OF h1 h2 h3 h4]
  have "method_filter (filter_strategy (FletcherFilterMethod_is_iterate_acceptable list_filter
        example_filter_method example_current_progress example_trial_progress
        example_predicted_reduction 1)) = [(1, 10), (2, 5)]"
    using r by (simp add: list_filter_def list_filter_add_def example_filter_method_def
          example_current_progress_def unconstrained_merit_function_def scaled_objective_def)
  then show ?thesis
    using h1 h2 h3 h4 r by blast
qed

section \<open>Theorems: the termination test\<close>

lemma check_first_order_convergence_range:
  "check_first_order_convergence nz model it tol
     \<in> {FEASIBLE_KKT_POINT, INFEASIBLE_STATIONARY_POINT, NOT_OPTIMAL}"
  by (simp add: check_first_order_convergence_def Let_def)

lemma check_termination_range:
  "status (check_termination nz cr model s it)
     \<in> {FEASIBLE_KKT_POINT, INFEASIBLE_STATIONARY_POINT, UNBOUNDED, NOT_OPTIMAL}"
  using check_first_order_convergence_range [of nz model "cr it" "tight_tolerance s"]
    check_first_order_convergence_range [of nz model "cr it" "loose_tolerance s"]
  by (auto simp: check_termination_def Let_def)

lemma check_termination_constants:
  "tight_tolerance (strategy_after (check_termination nz cr model s it)) = tight_tolerance s"
  "loose_tolerance (strategy_after (check_termination nz cr model s it)) = loose_tolerance s"
  "loose_tolerance_consecutive_iteration_threshold (strategy_after (check_termination nz cr model s it))
     = loose_tolerance_consecutive_iteration_threshold s"
  "unbounded_objective_threshold (strategy_after (check_termination nz cr model s it))
     = unbounded_objective_threshold s"
  by (simp_all add: check_termination_def Let_def)

lemma loose_test_holds_cong:
  "loose_tolerance s' = loose_tolerance s \<Longrightarrow>
   loose_test_holds nz cr model s' it = loose_test_holds nz cr model s it"
  by (simp add: loose_test_holds_def)

lemma reaches_loose_test_cong:
  "tight_tolerance s' = tight_tolerance s \<Longrightarrow> loose_tolerance s' = loose_tolerance s \<Longrightarrow>
   unbounded_objective_threshold s' = unbounded_objective_threshold s \<Longrightarrow>
   reaches_loose_test nz cr model s' it = reaches_loose_test nz cr model s it"
  by (simp add: reaches_loose_test_def)

text \<open>One call that gets as far as the loose test.\<close>

lemma check_termination_loose_step:
  assumes "reaches_loose_test nz cr model s it"
  shows "loose_test_holds nz cr model s it \<Longrightarrow>
           loose_tolerance_consecutive_iterations (strategy_after (check_termination nz cr model s it))
             = loose_tolerance_consecutive_iterations s + 1
           \<and> status (check_termination nz cr model s it)
             = (if loose_tolerance_consecutive_iteration_threshold s
                    \<le> loose_tolerance_consecutive_iterations s + 1
                then check_first_order_convergence nz model (cr it) (loose_tolerance s)
                else NOT_OPTIMAL)"
    and "\<not> loose_test_holds nz cr model s it \<Longrightarrow>
           loose_tolerance_consecutive_iterations (strategy_after (check_termination nz cr model s it)) = 0
           \<and> status (check_termination nz cr model s it) = NOT_OPTIMAL"
  using assms
  by (simp_all add: reaches_loose_test_def loose_test_holds_def check_termination_def Let_def)

text \<open>A call that answers \<^verbatim>\<open>NOT_OPTIMAL\<close> with a strictly looser loose tolerance got as far as the loose test.\<close>

lemma not_optimal_reaches_loose_test:
  assumes "status (check_termination nz cr model s it) = NOT_OPTIMAL"
    and "tight_tolerance s < loose_tolerance s"
  shows "reaches_loose_test nz cr model s it"
  using assms
  by (auto simp: reaches_loose_test_def check_termination_def Let_def split: if_splits)

lemma check_terminations_snoc:
  "check_terminations nz cr model s (its @ [it]) =
     (fst (check_terminations nz cr model s its)
        @ [status (check_termination nz cr model (snd (check_terminations nz cr model s its)) it)],
      strategy_after (check_termination nz cr model (snd (check_terminations nz cr model s its)) it))"
  by (induction its arbitrary: s) (simp_all add: Let_def)

lemma check_terminations_constants:
  "tight_tolerance (snd (check_terminations nz cr model s its)) = tight_tolerance s"
  "loose_tolerance (snd (check_terminations nz cr model s its)) = loose_tolerance s"
  "loose_tolerance_consecutive_iteration_threshold (snd (check_terminations nz cr model s its))
     = loose_tolerance_consecutive_iteration_threshold s"
  "unbounded_objective_threshold (snd (check_terminations nz cr model s its))
     = unbounded_objective_threshold s"
  by (induction its arbitrary: s) (simp_all add: Let_def check_termination_constants)

text \<open>
  While the driver goes on, the counter is the length of the run of most recent calls on
  which the loose test held.
\<close>

lemma consecutive_counter:
  assumes "loose_tolerance_consecutive_iterations s = 0"
    and "tight_tolerance s < loose_tolerance s"
    and "\<forall>st \<in> set (fst (check_terminations nz cr model s its)). st = NOT_OPTIMAL"
  shows "loose_tolerance_consecutive_iterations (snd (check_terminations nz cr model s its))
           = length (takeWhile (loose_test_holds nz cr model s) (rev its))"
  using assms(3)
proof (induction its rule: rev_induct)
  case Nil
  then show ?case using assms(1) by simp
next
  case (snoc it its)
  let ?s1 = "snd (check_terminations nz cr model s its)"
  have prev: "\<forall>st \<in> set (fst (check_terminations nz cr model s its)). st = NOT_OPTIMAL"
    and last: "status (check_termination nz cr model ?s1 it) = NOT_OPTIMAL"
    using snoc.prems by (simp_all add: check_terminations_snoc)
  have ih: "loose_tolerance_consecutive_iterations ?s1
           = length (takeWhile (loose_test_holds nz cr model s) (rev its))"
    using snoc.IH prev by simp
  have tl: "tight_tolerance ?s1 < loose_tolerance ?s1"
    using assms(2) by (simp add: check_terminations_constants)
  have reach: "reaches_loose_test nz cr model ?s1 it"
    using not_optimal_reaches_loose_test [OF last tl] .
  have same: "loose_test_holds nz cr model ?s1 it = loose_test_holds nz cr model s it"
    by (rule loose_test_holds_cong) (simp add: check_terminations_constants)
  show ?case
  proof (cases "loose_test_holds nz cr model s it")
    case True
    then have "loose_tolerance_consecutive_iterations
        (strategy_after (check_termination nz cr model ?s1 it))
        = loose_tolerance_consecutive_iterations ?s1 + 1"
      using check_termination_loose_step(1) [OF reach] same by simp
    then show ?thesis using True ih by (simp add: check_terminations_snoc)
  next
    case False
    then have "loose_tolerance_consecutive_iterations
        (strategy_after (check_termination nz cr model ?s1 it)) = 0"
      using check_termination_loose_step(2) [OF reach] same by simp
    then show ?thesis using False by (simp add: check_terminations_snoc)
  qed
qed

lemma takeWhile_length_take:
  "k \<le> length (takeWhile P xs) \<Longrightarrow> k \<le> length xs \<and> (\<forall>x \<in> set (take k xs). P x)"
proof (induction xs arbitrary: k)
  case Nil
  then show ?case by simp
next
  case (Cons x xs)
  show ?case
  proof (cases k)
    case 0
    then show ?thesis by simp
  next
    case (Suc j)
    with Cons.prems have px: "P x" and j: "j \<le> length (takeWhile P xs)"
      by (simp_all split: if_splits)
    from Cons.IH [OF j] px Suc show ?thesis by simp
  qed
qed


text \<open>
  C7. \<^verbatim>\<open>check_termination\<close> answers \<^verbatim>\<open>FEASIBLE_KKT_POINT\<close>, \<^verbatim>\<open>INFEASIBLE_STATIONARY_POINT\<close>,
  \<^verbatim>\<open>UNBOUNDED\<close> or \<^verbatim>\<open>NOT_OPTIMAL\<close>. Take a run of calls from a zero counter on which the driver
  went on (every answer \<^verbatim>\<open>NOT_OPTIMAL\<close>), followed by one more call that gets as far as the
  loose test (the objective is not below the unboundedness threshold, the tight test answers
  \<^verbatim>\<open>NOT_OPTIMAL\<close>, and the loose tolerance is strictly looser). If that call answers a
  convergence status, the status is the loose test's, and the loose test held on this call
  and on the \<open>K - 1\<close> calls before it, which exist. If the loose test fails on that call, the
  answer is \<^verbatim>\<open>NOT_OPTIMAL\<close> and the counter is zero afterwards.
\<close>

theorem check_termination_loose_consecutive:
  assumes "loose_tolerance_consecutive_iterations s = 0"
    and "\<forall>st \<in> set (fst (check_terminations nz cr model s its)). st = NOT_OPTIMAL"
  shows "status (check_termination nz cr model (snd (check_terminations nz cr model s its)) it)
           \<in> {FEASIBLE_KKT_POINT, INFEASIBLE_STATIONARY_POINT, UNBOUNDED, NOT_OPTIMAL}
       \<and> (reaches_loose_test nz cr model s it
            \<and> status (check_termination nz cr model (snd (check_terminations nz cr model s its)) it)
                \<noteq> NOT_OPTIMAL
          \<longrightarrow> status (check_termination nz cr model (snd (check_terminations nz cr model s its)) it)
                = check_first_order_convergence nz model (cr it) (loose_tolerance s)
              \<and> loose_test_holds nz cr model s it
              \<and> loose_tolerance_consecutive_iteration_threshold s - 1 \<le> length its
              \<and> (\<forall>previous \<in> set (take (loose_tolerance_consecutive_iteration_threshold s - 1) (rev its)).
                    loose_test_holds nz cr model s previous))
       \<and> (reaches_loose_test nz cr model s it \<and> \<not> loose_test_holds nz cr model s it
          \<longrightarrow> status (check_termination nz cr model (snd (check_terminations nz cr model s its)) it)
                = NOT_OPTIMAL
              \<and> loose_tolerance_consecutive_iterations (strategy_after
                  (check_termination nz cr model (snd (check_terminations nz cr model s its)) it)) = 0)"
proof -
  let ?s1 = "snd (check_terminations nz cr model s its)"
  let ?r = "check_termination nz cr model ?s1 it"
  let ?K = "loose_tolerance_consecutive_iteration_threshold s"
  have reach_eq: "reaches_loose_test nz cr model ?s1 it = reaches_loose_test nz cr model s it"
    by (rule reaches_loose_test_cong) (simp_all add: check_terminations_constants)
  have holds_eq: "loose_test_holds nz cr model ?s1 it = loose_test_holds nz cr model s it"
    by (rule loose_test_holds_cong) (simp add: check_terminations_constants)
  have range: "status ?r \<in> {FEASIBLE_KKT_POINT, INFEASIBLE_STATIONARY_POINT, UNBOUNDED, NOT_OPTIMAL}"
    by (rule check_termination_range)
  have fails: "status ?r = NOT_OPTIMAL
      \<and> loose_tolerance_consecutive_iterations (strategy_after ?r) = 0"
    if "reaches_loose_test nz cr model s it" "\<not> loose_test_holds nz cr model s it"
    using check_termination_loose_step(2) [of nz cr model ?s1 it] that reach_eq holds_eq by simp
  have converged: "status ?r = check_first_order_convergence nz model (cr it) (loose_tolerance s)
      \<and> loose_test_holds nz cr model s it
      \<and> ?K - 1 \<le> length its
      \<and> (\<forall>previous \<in> set (take (?K - 1) (rev its)). loose_test_holds nz cr model s previous)"
    if reach: "reaches_loose_test nz cr model s it" and conv: "status ?r \<noteq> NOT_OPTIMAL"
  proof -
    have holds: "loose_test_holds nz cr model s it"
      using fails [OF reach] conv by blast
    have tl: "tight_tolerance s < loose_tolerance s"
      using reach by (simp add: reaches_loose_test_def)
    have step: "status ?r
        = (if loose_tolerance_consecutive_iteration_threshold ?s1
                \<le> loose_tolerance_consecutive_iterations ?s1 + 1
           then check_first_order_convergence nz model (cr it) (loose_tolerance ?s1)
           else NOT_OPTIMAL)"
      using check_termination_loose_step(1) [of nz cr model ?s1 it] reach holds reach_eq holds_eq
      by simp
    have enough: "?K \<le> loose_tolerance_consecutive_iterations ?s1 + 1"
      and st: "status ?r = check_first_order_convergence nz model (cr it) (loose_tolerance s)"
      using step conv by (simp_all add: check_terminations_constants split: if_splits)
    have count: "loose_tolerance_consecutive_iterations ?s1
        = length (takeWhile (loose_test_holds nz cr model s) (rev its))"
      by (rule consecutive_counter [OF assms(1) tl assms(2)])
    have "?K - 1 \<le> length (takeWhile (loose_test_holds nz cr model s) (rev its))"
      using enough count by simp
    from takeWhile_length_take [OF this] st holds show ?thesis by simp
  qed
  show ?thesis
    using range converged fails by blast
qed

theorem check_termination_loose_consecutive_witness:
  "loose_tolerance_consecutive_iterations example_strategy = 0
   \<and> fst (check_terminations all_zero_duals stored_residuals example_model example_strategy
        [example_iterate_with_stationarity (1 / 10000)]) = [NOT_OPTIMAL]
   \<and> reaches_loose_test all_zero_duals stored_residuals example_model example_strategy
        (example_iterate_with_stationarity (1 / 10000))
   \<and> status (check_termination all_zero_duals stored_residuals example_model
        (snd (check_terminations all_zero_duals stored_residuals example_model example_strategy
           [example_iterate_with_stationarity (1 / 10000)]))
        (example_iterate_with_stationarity (1 / 10000))) = FEASIBLE_KKT_POINT
   \<and> loose_test_holds all_zero_duals stored_residuals example_model example_strategy
        (example_iterate_with_stationarity (1 / 10000))
   \<and> reaches_loose_test all_zero_duals stored_residuals example_model example_strategy
        (example_iterate_with_stationarity 1)
   \<and> \<not> loose_test_holds all_zero_duals stored_residuals example_model example_strategy
        (example_iterate_with_stationarity 1)
   \<and> status (check_termination all_zero_duals stored_residuals example_model
        (snd (check_terminations all_zero_duals stored_residuals example_model example_strategy
           [example_iterate_with_stationarity (1 / 10000)]))
        (example_iterate_with_stationarity 1)) = NOT_OPTIMAL
   \<and> loose_tolerance_consecutive_iterations (strategy_after
        (check_termination all_zero_duals stored_residuals example_model
          (snd (check_terminations all_zero_duals stored_residuals example_model example_strategy
             [example_iterate_with_stationarity (1 / 10000)]))
          (example_iterate_with_stationarity 1))) = 0"
proof -
  let ?run = "check_terminations all_zero_duals stored_residuals example_model example_strategy
        [example_iterate_with_stationarity (1 / 10000)]"
  let ?good = "example_iterate_with_stationarity (1 / 10000)"
  let ?bad = "example_iterate_with_stationarity 1"
  note ev = check_termination_def check_first_order_convergence_def Let_def
          example_strategy_def example_iterate_with_stationarity_def example_initial_iterate_def
          zero_residuals_def stored_residuals_def all_zero_duals_def example_model_def
  have h1: "loose_tolerance_consecutive_iterations example_strategy = 0"
    by (simp add: example_strategy_def)
  have run: "fst ?run = [NOT_OPTIMAL]"
    by (simp add: ev)
  have h2: "\<forall>st \<in> set (fst ?run). st = NOT_OPTIMAL"
    unfolding run by simp
  have reach1: "reaches_loose_test all_zero_duals stored_residuals example_model example_strategy ?good"
    by (simp add: reaches_loose_test_def ev)
  have reach2: "reaches_loose_test all_zero_duals stored_residuals example_model example_strategy ?bad"
    by (simp add: reaches_loose_test_def ev)
  have fail2: "\<not> loose_test_holds all_zero_duals stored_residuals example_model example_strategy ?bad"
    by (simp add: loose_test_holds_def ev)
  have kkt: "status (check_termination all_zero_duals stored_residuals example_model (snd ?run) ?good)
      = FEASIBLE_KKT_POINT"
    by (simp add: ev)
  have conv: "status (check_termination all_zero_duals stored_residuals example_model (snd ?run) ?good)
      \<noteq> NOT_OPTIMAL"
    unfolding kkt by simp
  note t1 = check_termination_loose_consecutive [OF h1 h2, of ?good, THEN conjunct2, THEN conjunct1,
      THEN mp, OF conjI, OF reach1 conv]
  note t2 = check_termination_loose_consecutive [OF h1 h2, of ?bad, THEN conjunct2, THEN conjunct2,
      THEN mp, OF conjI, OF reach2 fail2]
  have c1: "loose_test_holds all_zero_duals stored_residuals example_model example_strategy ?good"
    using t1 by (rule conjunct2 [THEN conjunct1])
  show ?thesis
    by (intro conjI h1 run reach1 kkt c1 reach2 fail2 t2 [THEN conjunct1] t2 [THEN conjunct2])
qed

section \<open>Theorems: accepting a zero step\<close>

lemma compute_progress_measures_calls:
  "compute_progress_measures ops g changed c t = (g1, ch1, c1, t1, cs) \<Longrightarrow>
   StrategyIsIterateAcceptable \<notin> set cs \<and> ComputePredictedReductions \<notin> set cs
   \<and> g1 = (if changed then strategy_reset ops g else g)"
  by (auto simp: compute_progress_measures_def split: if_splits)

lemma compute_progress_measures_independent:
  "compute_progress_measures
     (ops\<lparr> strategy_is_iterate_acceptable := f, compute_predicted_reductions := h \<rparr>) g changed c t
   = compute_progress_measures ops g changed c t"
  by (simp add: compute_progress_measures_def)

text \<open>
  C10 (as the code has it). When the direction's norm is zero the trial iterate is accepted
  whatever the strategy would say: the call list holds neither the strategy's acceptance test
  nor the computation of predicted reductions, and the whole outcome is the same for any
  other acceptance test \<open>f\<close> and any other predicted-reduction routine \<open>h\<close>. The strategy is
  left as it was unless the method's \<^verbatim>\<open>subproblem_definition_changed\<close> flag is set, in which
  case it is the strategy after its \<^verbatim>\<open>reset\<close>.
\<close>

theorem zero_step_accepted_without_strategy:
  "accept_iterate (ConstraintRelaxationStrategy_is_iterate_acceptable ops g changed sigma c t m d 0 alpha)
   \<and> StrategyIsIterateAcceptable \<notin> set (calls_made
        (ConstraintRelaxationStrategy_is_iterate_acceptable ops g changed sigma c t m d 0 alpha))
   \<and> ComputePredictedReductions \<notin> set (calls_made
        (ConstraintRelaxationStrategy_is_iterate_acceptable ops g changed sigma c t m d 0 alpha))
   \<and> ConstraintRelaxationStrategy_is_iterate_acceptable
        (ops\<lparr> strategy_is_iterate_acceptable := f, compute_predicted_reductions := h \<rparr>)
        g changed sigma c t m d 0 alpha
      = ConstraintRelaxationStrategy_is_iterate_acceptable ops g changed sigma c t m d 0 alpha
   \<and> strategy_state (ConstraintRelaxationStrategy_is_iterate_acceptable ops g changed sigma c t m d 0 alpha)
      = (if changed then strategy_reset ops g else g)"
proof -
  obtain x' m' where pp: "postprocess_iterate ops (primals t) m = (x', m')"
    by (cases "postprocess_iterate ops (primals t) m")
  obtain g1 ch1 c1 t1 cs where cp: "compute_progress_measures ops g changed c
      (t\<lparr> primals := x', objective_multiplier := sigma \<rparr>) = (g1, ch1, c1, t1, cs)"
    by (metis prod_cases5)
  note facts = compute_progress_measures_calls [OF cp]
  have r: "ConstraintRelaxationStrategy_is_iterate_acceptable ops g changed sigma c t m d 0 alpha
      = \<lparr> accept_iterate = True, strategy_state = g1, method_definition_changed = ch1,
          current_iterate_after = c1, trial_iterate_after = evaluate_objective ops t1,
          trial_multipliers_after = m',
          calls_made = PostprocessIterate # cs
             @ [EvaluateObjective, StatisticsSet ''status'' ''0 primal step'',
                NotifyAcceptableIterate] \<rparr>"
    by (simp add: ConstraintRelaxationStrategy_is_iterate_acceptable_def pp cp)
  have r': "ConstraintRelaxationStrategy_is_iterate_acceptable
        (ops\<lparr> strategy_is_iterate_acceptable := f, compute_predicted_reductions := h \<rparr>)
        g changed sigma c t m d 0 alpha
      = \<lparr> accept_iterate = True, strategy_state = g1, method_definition_changed = ch1,
          current_iterate_after = c1, trial_iterate_after = evaluate_objective ops t1,
          trial_multipliers_after = m',
          calls_made = PostprocessIterate # cs
             @ [EvaluateObjective, StatisticsSet ''status'' ''0 primal step'',
                NotifyAcceptableIterate] \<rparr>"
    by (simp add: ConstraintRelaxationStrategy_is_iterate_acceptable_def pp cp
          compute_progress_measures_independent)
  show ?thesis
    unfolding r r' using facts by simp
qed

text \<open>
  C10 as stated fails when the method has flagged a changed subproblem definition: a filter
  holding the entry \<open>(2, 5)\<close> is empty after a zero step has been accepted.
\<close>

theorem zero_step_resets_strategy_counterexample:
  "method_filter (strategy_state (ConstraintRelaxationStrategy_is_iterate_acceptable
       filter_collaborators example_filter_method True 1
       (example_initial_iterate 0) (example_initial_iterate 0)
       (multipliers (example_initial_iterate 0)) zero_direction 0 1))
   \<noteq> method_filter example_filter_method"
  by (simp add: ConstraintRelaxationStrategy_is_iterate_acceptable_def compute_progress_measures_def
        filter_collaborators_def filter_reset_def unchanged_duals_def example_filter_method_def)

section \<open>Theorems: primal regularization\<close>











subsection \<open>The KKT inertia correction\<close>







subsection \<open>The regularization loop as a whole\<close>








end
